theory Spec2Isabelle
  imports Complex_Main "HOL-Library.Sublist"
begin

section \<open>JavaScript strings\<close>

text \<open>
  A JavaScript string is the sequence of its code units. The model writes a string as a
  \<^typ>\<open>string\<close> and reads every \<^typ>\<open>char\<close> as the code unit of the same number,
  so it covers the texts whose code units are below 256 (ASCII and Latin-1).
\<close>

text \<open>
  \<^verbatim>\<open>String.prototype.toLowerCase\<close> on one code unit below 256: the letters A..Z
  (65..90) and the Latin-1 capitals (192..222 without the multiplication sign 215) move up
  by 32, which sets bit 5; every other code unit stays.
\<close>

fun toLowerCase_char :: "char \<Rightarrow> char" where
  "toLowerCase_char (Char b0 b1 b2 b3 b4 b5 b6 b7) =
     (let n = (of_char (Char b0 b1 b2 b3 b4 b5 b6 b7) :: nat)
      in if (65 \<le> n \<and> n \<le> 90) \<or> (192 \<le> n \<and> n \<le> 222 \<and> n \<noteq> 215)
         then Char b0 b1 b2 b3 b4 True b6 b7
         else Char b0 b1 b2 b3 b4 b5 b6 b7)"

definition toLowerCase :: "string \<Rightarrow> string" where
  "toLowerCase s = map toLowerCase_char s"

text \<open>
  The white space of \<^verbatim>\<open>trim\<close> and of the regular expression class \<^verbatim>\<open>\s\<close> (the
  same set: WhiteSpace and LineTerminator), below 256: tab, line feed, vertical tab, form
  feed, carriage return, space and the no-break space.
\<close>

definition isWhiteSpace :: "char \<Rightarrow> bool" where
  "isWhiteSpace c =
     (let n = (of_char c :: nat)
      in n = 9 \<or> n = 10 \<or> n = 11 \<or> n = 12 \<or> n = 13 \<or> n = 32 \<or> n = 160)"

definition trimStart :: "string \<Rightarrow> string" where
  "trimStart s = dropWhile isWhiteSpace s"

definition trim :: "string \<Rightarrow> string" where
  "trim s = rev (trimStart (rev (trimStart s)))"

text \<open>\<^verbatim>\<open>s.startsWith(t)\<close> and \<^verbatim>\<open>s.includes(t)\<close>: \<open>t\<close> occurs in \<open>s\<close> as a
  contiguous run of code units; the empty string occurs in every string.\<close>

fun startsWith :: "string \<Rightarrow> string \<Rightarrow> bool" where
  "startsWith s [] = True"
| "startsWith [] (d # t) = False"
| "startsWith (c # s) (d # t) = (c = d \<and> startsWith s t)"

fun includes_str :: "string \<Rightarrow> string \<Rightarrow> bool" where
  "includes_str [] t = (t = [])"
| "includes_str (c # s) t = (startsWith (c # s) t \<or> includes_str s t)"

text \<open>
  \<^verbatim>\<open>s.split(/\s+/)\<close>: the pieces of \<open>s\<close> between the maximal runs of white space.
  A run at the start or at the end leaves an empty piece there, and the empty string
  splits into the one empty piece.
\<close>

function split_ws_from :: "string \<Rightarrow> string \<Rightarrow> string list" where
  "split_ws_from cur [] = [cur]"
| "split_ws_from cur (c # cs) =
     (if isWhiteSpace c then cur # split_ws_from [] (dropWhile isWhiteSpace cs)
      else split_ws_from (cur @ [c]) cs)"
  by pat_completeness auto
termination
  by (relation "measure (\<lambda>(cur, cs). length cs)")
     (auto simp: length_dropWhile_le less_Suc_eq_le)

definition split_ws :: "string \<Rightarrow> string list" where
  "split_ws s = split_ws_from [] s"

text \<open>Decimal rendering of a length inside a template literal; \<open>digit_char\<close> is
  only applied to a digit below 10.\<close>

definition digit_char :: "nat \<Rightarrow> char" where
  "digit_char d = ''0123456789'' ! d"

function show_nat :: "nat \<Rightarrow> string" where
  "show_nat n = (if n < 10 then [digit_char n] else show_nat (n div 10) @ [digit_char (n mod 10)])"
  by pat_completeness auto
termination
  by (relation "measure id") auto

declare show_nat.simps [simp del]

section \<open>Collections\<close>

text \<open>
  \<^verbatim>\<open>new Set(xs)\<close> keeps the first occurrence of every element, in insertion order;
  \<^verbatim>\<open>.size\<close> is the number of elements and \<^verbatim>\<open>.has\<close> is membership. The elements
  here are strings, which a Set compares by value.
\<close>

fun new_Set :: "'a list \<Rightarrow> 'a list" where
  "new_Set [] = []"
| "new_Set (x # xs) = x # filter (\<lambda>y. y \<noteq> x) (new_Set xs)"

definition Set_has :: "'a list \<Rightarrow> 'a \<Rightarrow> bool" where
  "Set_has s x = (x \<in> set s)"

text \<open>
  \<^verbatim>\<open>Map.prototype.set\<close>: a key that is present keeps its place and takes the new
  value; a new key goes to the end. \<^verbatim>\<open>new Map(entries)\<close> sets the entries in order.
\<close>

fun Map_set :: "('k \<times> 'v) list \<Rightarrow> 'k \<Rightarrow> 'v \<Rightarrow> ('k \<times> 'v) list" where
  "Map_set [] k v = [(k, v)]"
| "Map_set ((k', v') # m) k v = (if k' = k then (k, v) # m else (k', v') # Map_set m k v)"

definition new_Map :: "('k \<times> 'v) list \<Rightarrow> ('k \<times> 'v) list" where
  "new_Map entries = foldl (\<lambda>m (k, v). Map_set m k v) [] entries"

definition Map_values :: "('k \<times> 'v) list \<Rightarrow> 'v list" where
  "Map_values m = map snd m"

section \<open>The workflow's verify step\<close>

text \<open>
  The quote records \<^verbatim>\<open>{ quote, anime, character }\<close>. The fields are strings where
  a step's input schema says so (\<open>'v\<close> is \<^typ>\<open>string\<close>) and unvalidated JSON values
  where they come straight out of a response body.
\<close>

record 'v AnimechanQuote =
  quote :: 'v
  anime :: 'v
  character :: 'v

datatype matchType = Exact | Partial | Similar

record 'v Match = "'v AnimechanQuote" +
  matchType :: matchType

datatype confidence = High | Medium | Low

record 'm Verdict =
  verified :: bool
  confidence :: confidence
  matches :: "'m list"
  message :: string

text \<open>The input of the verify step (the output of the collect step) and its output,
  which carries the verdict and echoes quote, character and anime.\<close>

record 'v Collected =
  cq_quote :: string
  allQuotes :: "'v AnimechanQuote list"
  cq_character :: "string option"
  cq_anime :: "string option"

record 'm VerifyOutput = "'m Verdict" +
  vq_quote :: string
  vq_character :: "string option"
  vq_anime :: "string option"

text \<open>\<^verbatim>\<open>Array.from(new Map(allQuotes.map((q) => [q.quote, q])).values())\<close>\<close>

definition uniqueQuotes :: "string AnimechanQuote list \<Rightarrow> string AnimechanQuote list" where
  "uniqueQuotes qs = Map_values (new_Map (map (\<lambda>q. (quote q, q)) qs))"

definition withMatchType :: "'v AnimechanQuote \<Rightarrow> matchType \<Rightarrow> 'v Match" where
  "withMatchType q t =
     \<lparr>quote = quote q, anime = anime q, character = character q, matchType = t\<rparr>"

text \<open>
  The word overlap of the third rule. \<^verbatim>\<open>intersection.size / union.size\<close> divides
  two lengths as doubles; \<open>union\<close> always holds a word, and for lengths below \<open>2^53\<close>
  the rounded quotient reaches 0.5 exactly when the rational one does, so the model
  computes with rationals.
\<close>

definition similarity :: "string \<Rightarrow> string \<Rightarrow> rat" where
  "similarity quoteText quoteToVerify =
     (let quoteWords = new_Set (split_ws quoteText);
          verifyWords = new_Set (split_ws quoteToVerify);
          intersection = new_Set (filter (\<lambda>x. Set_has verifyWords x) quoteWords);
          union = new_Set (quoteWords @ verifyWords)
      in of_nat (length intersection) / of_nat (length union))"

text \<open>The loop over the unique quotes: every quote is compared with the normalised
  query and pushed with its match type, or skipped.\<close>

fun findMatches :: "string \<Rightarrow> string AnimechanQuote list \<Rightarrow> string Match list" where
  "findMatches quoteToVerify [] = []"
| "findMatches quoteToVerify (q # qs) =
     (let quoteText = trim (toLowerCase (quote q))
      in if quoteText = quoteToVerify
         then withMatchType q Exact # findMatches quoteToVerify qs
         else if includes_str quoteText quoteToVerify \<or> includes_str quoteToVerify quoteText
         then withMatchType q Partial # findMatches quoteToVerify qs
         else if similarity quoteText quoteToVerify \<ge> 1 / 2
                 \<and> length (new_Set (split_ws quoteText)) > 2
                 \<and> length (new_Set (split_ws quoteToVerify)) > 2
         then withMatchType q Similar # findMatches quoteToVerify qs
         else findMatches quoteToVerify qs)"

definition notFoundMessage :: string where
  "notFoundMessage =
     ''Quote not found in the database. The quote may not exist, or the character/anime name might be slightly different.''"

definition allMatches :: "string Collected \<Rightarrow> string Match list" where
  "allMatches inputData =
     findMatches (trim (toLowerCase (cq_quote inputData))) (uniqueQuotes (allQuotes inputData))"

definition verifyQuote :: "string Collected \<Rightarrow> string Match VerifyOutput" where
  "verifyQuote inputData =
     (let found = allMatches inputData;
          exactMatches = filter (\<lambda>m. matchType m = Exact) found;
          partialMatches = filter (\<lambda>m. matchType m = Partial) found;
          (v, c, msg) =
            (if length exactMatches > 0
             then (True, High,
                   ''Quote verified! Found '' @ show_nat (length exactMatches) @ '' exact match(es).'')
             else if length partialMatches > 0
             then (True, Medium,
                   ''Quote likely verified. Found '' @ show_nat (length partialMatches)
                   @ '' partial match(es) - the quote may have slight variations.'')
             else if length found > 0
             then (True, Low,
                   ''Found '' @ show_nat (length found) @ '' similar quote(s), but not an exact match.'')
             else (False, if length (allQuotes inputData) > 0 then High else Medium,
                   notFoundMessage))
      in \<lparr>verified = v, confidence = c, matches = take 5 found, message = msg,
          vq_quote = cq_quote inputData, vq_character = cq_character inputData,
          vq_anime = cq_anime inputData\<rparr>)"

section \<open>JavaScript values and exceptions\<close>

text \<open>
  What \<^verbatim>\<open>response.json()\<close> yields, and \<^verbatim>\<open>undefined\<close> for a property that is
  not there. A number is the rational it denotes (only its truthiness is used); an object
  is the list of its properties.
\<close>

datatype jsval =
    JUndefined
  | JNull
  | JBool bool
  | JNum rat
  | JStr string
  | JArr "jsval list"
  | JObj "(string \<times> jsval) list"

text \<open>
  A thrown value. \<open>Error\<close>, \<open>TypeError\<close> and \<open>SyntaxError\<close> are instances of
  \<^verbatim>\<open>Error\<close> and carry their message; \<open>NonError\<close> is any other thrown value. The
  messages of the engine's own type errors follow V8's wording.
\<close>

datatype exn = Error string | TypeError string | SyntaxError string | NonError

text \<open>The outcome of \<^verbatim>\<open>await fetch(...)\<close> is a rejection or a response with its
  \<^verbatim>\<open>ok\<close> flag and the outcome of \<^verbatim>\<open>await response.json()\<close>.\<close>

datatype response = Response (ok: bool) (json: "exn + jsval")

type_synonym fetched = "exn + response"

definition bindE :: "exn + 'a \<Rightarrow> ('a \<Rightarrow> exn + 'b) \<Rightarrow> exn + 'b" where
  "bindE m f = (case m of Inl e \<Rightarrow> Inl e | Inr x \<Rightarrow> f x)"

text \<open>A callback applied to the elements in order; the first exception ends the loop.\<close>

fun mapE :: "('a \<Rightarrow> exn + 'b) \<Rightarrow> 'a list \<Rightarrow> exn + 'b list" where
  "mapE f [] = Inr []"
| "mapE f (x # xs) = bindE (f x) (\<lambda>y. bindE (mapE f xs) (\<lambda>ys. Inr (y # ys)))"

fun filterE :: "('a \<Rightarrow> exn + bool) \<Rightarrow> 'a list \<Rightarrow> exn + 'a list" where
  "filterE p [] = Inr []"
| "filterE p (x # xs) =
     bindE (p x) (\<lambda>b. bindE (filterE p xs) (\<lambda>ys. Inr (if b then x # ys else ys)))"

fun truthy :: "jsval \<Rightarrow> bool" where
  "truthy JUndefined = False"
| "truthy JNull = False"
| "truthy (JBool b) = b"
| "truthy (JNum n) = (n \<noteq> 0)"
| "truthy (JStr s) = (s \<noteq> [])"
| "truthy (JArr xs) = True"
| "truthy (JObj kvs) = True"

fun isNullish :: "jsval \<Rightarrow> bool" where
  "isNullish JUndefined = True"
| "isNullish JNull = True"
| "isNullish v = False"

fun isString :: "jsval \<Rightarrow> bool" where
  "isString (JStr s) = True"
| "isString v = False"

fun isArray :: "jsval \<Rightarrow> bool" where
  "isArray (JArr xs) = True"
| "isArray v = False"

text \<open>\<^verbatim>\<open>v && typeof v === 'object'\<close>: an array or an object, not \<^verbatim>\<open>null\<close>.\<close>

fun isObjectValue :: "jsval \<Rightarrow> bool" where
  "isObjectValue (JArr xs) = True"
| "isObjectValue (JObj kvs) = True"
| "isObjectValue v = False"

text \<open>\<^verbatim>\<open>k in v\<close> for an array or an object, and a property name that no prototype
  defines.\<close>

fun hasKey :: "string \<Rightarrow> jsval \<Rightarrow> bool" where
  "hasKey k (JObj kvs) = (k \<in> set (map fst kvs))"
| "hasKey k v = False"

text \<open>
  Reading a property. The names read by this program (\<^verbatim>\<open>status\<close>, \<^verbatim>\<open>data\<close>,
  \<^verbatim>\<open>content\<close>, \<^verbatim>\<open>quote\<close>, \<^verbatim>\<open>anime\<close>, \<^verbatim>\<open>character\<close>, \<^verbatim>\<open>name\<close>,
  \<^verbatim>\<open>altName\<close>) are own properties of objects only, so every other value that is not
  nullish gives \<^verbatim>\<open>undefined\<close>. \<open>optChain\<close> is \<^verbatim>\<open>v?.k\<close>, \<open>getProp\<close> is
  \<^verbatim>\<open>v.k\<close>, which throws on \<^verbatim>\<open>null\<close> and \<^verbatim>\<open>undefined\<close>.
\<close>

fun optChain :: "jsval \<Rightarrow> string \<Rightarrow> jsval" where
  "optChain (JObj kvs) k = (case map_of kvs k of None \<Rightarrow> JUndefined | Some x \<Rightarrow> x)"
| "optChain v k = JUndefined"

definition typeName :: "jsval \<Rightarrow> string" where
  "typeName v = (case v of JNull \<Rightarrow> ''null'' | _ \<Rightarrow> ''undefined'')"

definition cannotRead :: "jsval \<Rightarrow> string \<Rightarrow> exn" where
  "cannotRead v k =
     TypeError (''Cannot read properties of '' @ typeName v @ '' (reading '' @ [CHR 0x27] @ k
                @ [CHR 0x27] @ '')'')"

definition getProp :: "jsval \<Rightarrow> string \<Rightarrow> exn + jsval" where
  "getProp v k = (if isNullish v then Inl (cannotRead v k) else Inr (optChain v k))"

text \<open>\<^verbatim>\<open>a || b\<close>\<close>

definition orElse :: "jsval \<Rightarrow> jsval \<Rightarrow> jsval" where
  "orElse a b = (if truthy a then a else b)"

text \<open>\<^verbatim>\<open>v.map(f)\<close>, where \<open>expr\<close> is the source text of \<open>v\<close>: only an array has a
  \<^verbatim>\<open>map\<close> method.\<close>

definition arrayMap :: "string \<Rightarrow> (jsval \<Rightarrow> exn + 'b) \<Rightarrow> jsval \<Rightarrow> exn + 'b list" where
  "arrayMap expr f v =
     (case v of
        JArr xs \<Rightarrow> mapE f xs
      | _ \<Rightarrow> if isNullish v then Inl (cannotRead v ''map'')
             else Inl (TypeError (expr @ ''.map is not a function'')))"

text \<open>\<^verbatim>\<open>v.toLowerCase()\<close> on a value that should be a string.\<close>

definition toLowerCase_js :: "string \<Rightarrow> jsval \<Rightarrow> exn + string" where
  "toLowerCase_js expr v =
     (case v of
        JStr s \<Rightarrow> Inr (toLowerCase s)
      | _ \<Rightarrow> if isNullish v then Inl (cannotRead v ''toLowerCase'')
             else Inl (TypeError (expr @ ''.toLowerCase is not a function'')))"

text \<open>\<^verbatim>\<open>if (s)\<close> for an optional string: present and not empty.\<close>

fun given :: "string option \<Rightarrow> bool" where
  "given None = False"
| "given (Some s) = (s \<noteq> [])"

section \<open>The verify tool\<close>

text \<open>\<^verbatim>\<open>error instanceof Error ? error.message : 'Unknown error'\<close>\<close>

fun catchMessage :: "exn \<Rightarrow> string" where
  "catchMessage (Error m) = m"
| "catchMessage (TypeError m) = m"
| "catchMessage (SyntaxError m) = m"
| "catchMessage NonError = ''Unknown error''"

text \<open>The callback of the wrapper shape \<^verbatim>\<open>{ status, data: [...] }\<close> in
  \<open>parseApiResponse\<close>.\<close>

definition wrapperItem :: "jsval \<Rightarrow> exn + jsval AnimechanQuote" where
  "wrapperItem item =
     bindE (getProp item ''content'') (\<lambda>content.
       Inr \<lparr>quote = content,
            anime = orElse (orElse (optChain (optChain item ''anime'') ''name'')
                                   (optChain (optChain item ''anime'') ''altName''))
                           (JStr ''Unknown''),
            character = orElse (optChain (optChain item ''character'') ''name'')
                               (JStr ''Unknown'')\<rparr>)"

text \<open>The callback of the bare array shape, the same in \<open>parseApiResponse\<close> and in
  the character tool: a field that is a string is taken as it is.\<close>

definition nameOrUnknown :: "jsval \<Rightarrow> jsval" where
  "nameOrUnknown v = (if isString v then v else orElse (optChain v ''name'') (JStr ''Unknown''))"

definition bareItem :: "jsval \<Rightarrow> exn + jsval AnimechanQuote" where
  "bareItem q =
     bindE (getProp q ''quote'') (\<lambda>text.
       Inr \<lparr>quote = orElse text (optChain q ''content''),
            anime = nameOrUnknown (optChain q ''anime''),
            character = nameOrUnknown (optChain q ''character'')\<rparr>)"

definition isWrapper :: "jsval \<Rightarrow> bool" where
  "isWrapper apiResponse =
     (isObjectValue apiResponse \<and> hasKey ''status'' apiResponse
      \<and> truthy (optChain apiResponse ''status'') \<and> truthy (optChain apiResponse ''data''))"

definition parseApiResponse :: "jsval \<Rightarrow> exn + jsval AnimechanQuote list" where
  "parseApiResponse apiResponse =
     (if isWrapper apiResponse
      then arrayMap ''apiResponse.data'' wrapperItem (optChain apiResponse ''data'')
      else if isArray apiResponse
      then arrayMap ''apiResponse'' bareItem apiResponse
      else Inr [])"

record ToolContext =
  tc_quote :: "string option"
  tc_character :: "string option"
  tc_anime :: "string option"
  tc_apiKey :: "string option"

text \<open>One lookup of the tool: the fetch, the \<^verbatim>\<open>ok\<close> test, the body and its parse;
  \<open>quotes\<close> is kept when the response is not ok.\<close>

definition toolLookup ::
  "fetched \<Rightarrow> jsval AnimechanQuote list \<Rightarrow> exn + jsval AnimechanQuote list" where
  "toolLookup f quotes =
     bindE f (\<lambda>response.
       if ok response then bindE (json response) parseApiResponse else Inr quotes)"

definition quoteMatches :: "string \<Rightarrow> jsval AnimechanQuote \<Rightarrow> exn + bool" where
  "quoteMatches quoteText q =
     bindE (toLowerCase_js ''q.quote'' (quote q)) (\<lambda>t.
       if includes_str t quoteText then Inr True
       else bindE (toLowerCase_js ''q.quote'' (quote q)) (\<lambda>t'. Inr (includes_str quoteText t')))"

definition toolNotFoundMessage :: string where
  "toolNotFoundMessage =
     ''Quote not found in the database. It may not exist, or the character/anime name might be slightly different.''"

definition toolNotFound :: "ToolContext \<Rightarrow> jsval AnimechanQuote Verdict" where
  "toolNotFound ctx =
     \<lparr>verified = False, confidence = (if given (tc_quote ctx) then High else Medium),
      matches = [], message = toolNotFoundMessage\<rparr>"

text \<open>The two lookups of the tool's \<^verbatim>\<open>try\<close> block; \<open>charFetch\<close> and
  \<open>animeFetch\<close> are the outcomes of the two requests, each used only if the request is
  made. The anime lookup is made only when the character lookup left no quotes.\<close>

definition toolQuotes ::
  "ToolContext \<Rightarrow> fetched \<Rightarrow> fetched \<Rightarrow> exn + jsval AnimechanQuote list" where
  "toolQuotes ctx charFetch animeFetch =
     bindE (if given (tc_character ctx) then toolLookup charFetch [] else Inr []) (\<lambda>quotes.
       if length quotes = 0 \<and> given (tc_anime ctx) then toolLookup animeFetch quotes
       else Inr quotes)"

text \<open>The rest of the \<^verbatim>\<open>try\<close> block: the verdict from the quotes found.\<close>

definition toolVerdict ::
  "ToolContext \<Rightarrow> jsval AnimechanQuote list \<Rightarrow> exn + jsval AnimechanQuote Verdict" where
  "toolVerdict ctx quotes =
     (if given (tc_quote ctx)
      then (let quoteText = trim (toLowerCase (the (tc_quote ctx)))
            in bindE (filterE (quoteMatches quoteText) quotes) (\<lambda>matchingQuotes.
                 if length matchingQuotes > 0
                 then Inr \<lparr>verified = True, confidence = High, matches = matchingQuotes,
                           message = ''Quote verified! Found '' @ show_nat (length matchingQuotes)
                                     @ '' matching quote(s).''\<rparr>
                 else Inr (toolNotFound ctx)))
      else if length quotes > 0
      then Inr \<lparr>verified = True, confidence = Medium, matches = take 10 quotes,
                message = ''Found '' @ show_nat (length quotes)
                          @ '' quote(s) for the specified criteria.''\<rparr>
      else Inr (toolNotFound ctx))"

definition verifyTool_try ::
  "ToolContext \<Rightarrow> fetched \<Rightarrow> fetched \<Rightarrow> exn + jsval AnimechanQuote Verdict" where
  "verifyTool_try ctx charFetch animeFetch =
     bindE (toolQuotes ctx charFetch animeFetch) (toolVerdict ctx)"

definition verifyAnimeQuoteTool ::
  "ToolContext \<Rightarrow> fetched \<Rightarrow> fetched \<Rightarrow> jsval AnimechanQuote Verdict" where
  "verifyAnimeQuoteTool ctx charFetch animeFetch =
     (if \<not> given (tc_quote ctx) \<and> \<not> given (tc_character ctx) \<and> \<not> given (tc_anime ctx)
      then \<lparr>verified = False, confidence = Low, matches = [],
            message = ''Cannot verify: Please provide at least a quote, character, or anime name.''\<rparr>
      else case verifyTool_try ctx charFetch animeFetch of
             Inr verdict \<Rightarrow> verdict
           | Inl error \<Rightarrow>
               \<lparr>verified = False, confidence = Low, matches = [],
                message = ''Error during verification: '' @ catchMessage error\<rparr>)"

section \<open>The character tool's response shapes\<close>

text \<open>The callback of the wrapper shape in \<open>getQuotesByCharacterTool\<close>, which reads
  \<^verbatim>\<open>item.anime.name\<close> and \<^verbatim>\<open>item.character.name\<close> without \<^verbatim>\<open>?.\<close>.\<close>

definition strictWrapperItem :: "jsval \<Rightarrow> exn + jsval AnimechanQuote" where
  "strictWrapperItem item =
     bindE (getProp item ''content'') (\<lambda>content.
     bindE (getProp (optChain item ''anime'') ''name'') (\<lambda>name.
     bindE (getProp (optChain item ''character'') ''name'') (\<lambda>who.
       Inr \<lparr>quote = content,
            anime = orElse (orElse name (optChain (optChain item ''anime'') ''altName''))
                           (JStr ''Unknown''),
            character = who\<rparr>)))"

text \<open>\<open>getQuotesByCharacterTool\<close> from the parsed body of an ok response on: the shape
  dispatch inside the \<^verbatim>\<open>try\<close> block, giving the \<^verbatim>\<open>quotes\<close> of the result.\<close>

definition characterTool_try :: "jsval \<Rightarrow> exn + jsval AnimechanQuote list" where
  "characterTool_try apiResponse =
     bindE (getProp apiResponse ''status'') (\<lambda>status.
       if truthy status \<and> truthy (optChain apiResponse ''data'')
       then arrayMap ''apiResponse.data'' strictWrapperItem (optChain apiResponse ''data'')
       else if isArray apiResponse
       then arrayMap ''apiResponse'' bareItem apiResponse
       else Inl (Error ''Unexpected API response format''))"

text \<open>The tool's \<^verbatim>\<open>catch\<close> block throws every exception again under a prefix.\<close>

definition getQuotesByCharacterTool_body ::
  "string \<Rightarrow> jsval \<Rightarrow> exn + jsval AnimechanQuote list" where
  \<open>getQuotesByCharacterTool_body characterName apiResponse =
     (case characterTool_try apiResponse of
        Inr quotes \<Rightarrow> Inr quotes
      | Inl error \<Rightarrow>
          Inl (Error (''Failed to fetch quotes for character "'' @ characterName @ ''": ''
                      @ catchMessage error)))\<close>

section \<open>The workflow's search and collect steps\<close>

record QueryInput =
  q_quote :: string
  q_character :: "string option"
  q_anime :: "string option"
  q_apiKey :: "string option"

record SearchOutput = QueryInput +
  characterQuotes :: "jsval AnimechanQuote list"

text \<open>Every step starts with \<^verbatim>\<open>if (!inputData) throw new Error('Input data not found')\<close>.\<close>

definition requireInput :: "'a option \<Rightarrow> ('a \<Rightarrow> exn + 'b) \<Rightarrow> exn + 'b" where
  "requireInput inputData step =
     (case inputData of None \<Rightarrow> Inl (Error ''Input data not found'') | Some d \<Rightarrow> step d)"

text \<open>The callback of both steps: the body is cast to \<^verbatim>\<open>AnimechanQuote[]\<close> and the
  three fields are copied as they are.\<close>

definition copyQuote :: "jsval \<Rightarrow> exn + jsval AnimechanQuote" where
  "copyQuote q =
     bindE (getProp q ''quote'') (\<lambda>text.
       Inr \<lparr>quote = text, anime = optChain q ''anime'', character = optChain q ''character''\<rparr>)"

text \<open>The \<^verbatim>\<open>try\<close> block of the search step: the new value of
  \<^verbatim>\<open>characterQuotes\<close>, which starts empty.\<close>

definition searchQuotes_try :: "fetched \<Rightarrow> exn + jsval AnimechanQuote list" where
  "searchQuotes_try f =
     bindE f (\<lambda>response.
       if ok response then bindE (json response) (arrayMap ''data'' copyQuote) else Inr [])"

definition searchQuotes :: "QueryInput \<Rightarrow> fetched \<Rightarrow> SearchOutput" where
  "searchQuotes inputData charFetch =
     \<lparr>q_quote = q_quote inputData, q_character = q_character inputData,
      q_anime = q_anime inputData, q_apiKey = q_apiKey inputData,
      characterQuotes =
        (if given (q_character inputData)
         then (case searchQuotes_try charFetch of Inr quotes \<Rightarrow> quotes | Inl error \<Rightarrow> [])
         else [])\<rparr>"

definition searchQuotes_execute :: "QueryInput option \<Rightarrow> fetched \<Rightarrow> exn + SearchOutput" where
  "searchQuotes_execute inputData charFetch =
     requireInput inputData (\<lambda>d. Inr (searchQuotes d charFetch))"

text \<open>
  The key comparison of a Set (SameValueZero) on values of parsed bodies: primitives are
  compared by value; an object or array is a fresh reference, never the same as one of
  another element or another body.
\<close>

fun isPrimitive :: "jsval \<Rightarrow> bool" where
  "isPrimitive (JArr xs) = False"
| "isPrimitive (JObj kvs) = False"
| "isPrimitive v = True"

definition sameValueZero :: "jsval \<Rightarrow> jsval \<Rightarrow> bool" where
  "sameValueZero a b = (isPrimitive a \<and> a = b)"

text \<open>\<^verbatim>\<open>existingQuotes.has(v)\<close>, where \<open>existingQuotes\<close> is the Set of the listed
  values.\<close>

definition existing_has :: "jsval list \<Rightarrow> jsval \<Rightarrow> bool" where
  "existing_has existingQuotes v = list_ex (\<lambda>x. sameValueZero x v) existingQuotes"

text \<open>The merge loop: \<open>existingQuotes\<close> is built once before the loop and not changed by
  it.\<close>

fun pushNew ::
  "jsval list \<Rightarrow> jsval AnimechanQuote list \<Rightarrow> jsval AnimechanQuote list
   \<Rightarrow> jsval AnimechanQuote list" where
  "pushNew existingQuotes acc [] = acc"
| "pushNew existingQuotes acc (q # animeQuotes) =
     pushNew existingQuotes
       (if \<not> existing_has existingQuotes (quote q) then acc @ [q] else acc) animeQuotes"

definition mergeQuotes ::
  "jsval AnimechanQuote list \<Rightarrow> jsval AnimechanQuote list \<Rightarrow> jsval AnimechanQuote list" where
  "mergeQuotes charQuotes animeQuotes = pushNew (map quote charQuotes) charQuotes animeQuotes"

definition collectQuotes_try ::
  "jsval AnimechanQuote list \<Rightarrow> fetched \<Rightarrow> exn + jsval AnimechanQuote list" where
  "collectQuotes_try charQuotes f =
     bindE f (\<lambda>response.
       if ok response
       then bindE (json response) (\<lambda>data.
              bindE (arrayMap ''data'' copyQuote data) (\<lambda>animeQuotes.
                Inr (mergeQuotes charQuotes animeQuotes)))
       else Inr charQuotes)"

definition collectQuotes :: "SearchOutput \<Rightarrow> fetched \<Rightarrow> jsval Collected" where
  "collectQuotes inputData animeFetch =
     \<lparr>cq_quote = q_quote inputData,
      allQuotes =
        (if given (q_anime inputData)
         then (case collectQuotes_try (characterQuotes inputData) animeFetch of
                 Inr quotes \<Rightarrow> quotes
               | Inl error \<Rightarrow> characterQuotes inputData)
         else characterQuotes inputData),
      cq_character = q_character inputData, cq_anime = q_anime inputData\<rparr>"

definition collectQuotes_execute ::
  "SearchOutput option \<Rightarrow> fetched \<Rightarrow> exn + jsval Collected" where
  "collectQuotes_execute inputData animeFetch =
     requireInput inputData (\<lambda>d. Inr (collectQuotes d animeFetch))"

definition verifyQuote_execute ::
  "string Collected option \<Rightarrow> exn + string Match VerifyOutput" where
  "verifyQuote_execute inputData = requireInput inputData (\<lambda>d. Inr (verifyQuote d))"

section \<open>The workflow's report step\<close>

record 'm ReportOutput =
  r_verified :: bool
  r_confidence :: confidence
  r_matches :: "'m list"
  report :: string

fun confidenceUpper :: "confidence \<Rightarrow> string" where
  "confidenceUpper High = ''HIGH''"
| "confidenceUpper Medium = ''MEDIUM''"
| "confidenceUpper Low = ''LOW''"

fun matchTypeName :: "matchType \<Rightarrow> string" where
  "matchTypeName Exact = ''exact''"
| "matchTypeName Partial = ''partial''"
| "matchTypeName Similar = ''similar''"

fun join :: "string \<Rightarrow> string list \<Rightarrow> string" where
  "join sep [] = []"
| "join sep [x] = x"
| "join sep (x # y # ys) = x @ sep @ join sep (y # ys)"

definition matchLine :: "nat \<Rightarrow> string Match \<Rightarrow> string" where
  \<open>matchLine i m =
     show_nat (i + 1) @ ''. "'' @ quote m @ ''"\<newline>   - Character: '' @ character m
     @ ''\<newline>   - Anime: '' @ anime m @ ''\<newline>   - Match Type: '' @ matchTypeName (matchType m)\<close>

definition reportContext :: "string option \<Rightarrow> string option \<Rightarrow> string" where
  "reportContext who title =
     (if given who then ''Character: '' @ the who @ ''\<newline>'' else [])
     @ (if given title then ''Anime: '' @ the title @ ''\<newline>'' else [])"

definition reportPrompt :: "string Match VerifyOutput \<Rightarrow> string" where
  \<open>reportPrompt inputData =
     ''Create a comprehensive verification report for the following anime quote verification:\<newline>\<newline>''
     @ reportContext (vq_character inputData) (vq_anime inputData)
     @ ''\<newline>Quote to verify: "'' @ vq_quote inputData @ ''"\<newline>\<newline>''
     @ ''Verification Result:\<newline>- Status: ''
     @ (if verified inputData then ''VERIFIED'' else ''NOT VERIFIED'')
     @ ''\<newline>- Confidence: '' @ confidenceUpper (confidence inputData)
     @ ''\<newline>- Message: '' @ message inputData @ ''\<newline>\<newline>''
     @ (if length (matches inputData) > 0
        then ''\<newline>Matching Quotes Found:\<newline>''
             @ join ''\<newline>\<newline>''
                 (map (\<lambda>(i, m). matchLine i m)
                    (zip [0 ..< length (matches inputData)] (matches inputData)))
        else [])
     @ ''\<newline>\<newline>Please provide a well-formatted, friendly report that:\<newline>''
     @ ''1. Summarizes the verification result clearly\<newline>''
     @ ''2. Explains what was found (or not found)\<newline>''
     @ ''3. Provides context about the quote if verified\<newline>''
     @ ''4. Suggests next steps if not verified (e.g., checking alternative character names)\<newline>''
     @ ''5. Uses emojis and formatting to make it engaging\<newline>''
     @ ''6. Includes the confidence level and what it means\<newline>\<newline>''
     @ ''Make it informative but easy to understand.''\<close>

text \<open>
  The report step. \<open>agent\<close> is what \<^verbatim>\<open>mastra?.getAgent('animeAgent')\<close> finds: nothing,
  or an agent whose \<^verbatim>\<open>generate\<close> answers a prompt with a text or throws.
\<close>

definition generateVerificationReport ::
  "(string \<Rightarrow> exn + string) option \<Rightarrow> string Match VerifyOutput
   \<Rightarrow> exn + string Match ReportOutput" where
  "generateVerificationReport agent inputData =
     (case agent of
        None \<Rightarrow> Inl (Error ''Anime agent not found'')
      | Some generate \<Rightarrow>
          bindE (generate (reportPrompt inputData)) (\<lambda>text.
            Inr \<lparr>r_verified = verified inputData, r_confidence = confidence inputData,
                 r_matches = matches inputData, report = text\<rparr>))"

definition generateVerificationReport_execute ::
  "(string \<Rightarrow> exn + string) option \<Rightarrow> string Match VerifyOutput option
   \<Rightarrow> exn + string Match ReportOutput" where
  "generateVerificationReport_execute agent inputData =
     requireInput inputData (generateVerificationReport agent)"

section \<open>The matching rules as the specification words them\<close>

text \<open>
  The specification's three rules, on a candidate text and a query that are both
  normalised: equal texts are exact; otherwise one text occurring in the other is partial;
  otherwise the overlap of the two word sets, intersection over union, being at least one
  half with more than two words in each set is similar; anything else is no match.
\<close>

definition isSubstring :: "string \<Rightarrow> string \<Rightarrow> bool" where
  "isSubstring t s = (\<exists>before after. s = before @ t @ after)"

definition wordSet :: "string \<Rightarrow> string set" where
  "wordSet s = set (split_ws s)"

definition spec_classify :: "string \<Rightarrow> string \<Rightarrow> matchType option" where
  "spec_classify candidate query =
     (if candidate = query then Some Exact
      else if isSubstring query candidate \<or> isSubstring candidate query then Some Partial
      else if (of_nat (card (wordSet candidate \<inter> wordSet query)) :: rat)
                / of_nat (card (wordSet candidate \<union> wordSet query)) \<ge> 1 / 2
              \<and> card (wordSet candidate) > 2 \<and> card (wordSet query) > 2
      then Some Similar
      else None)"

definition spec_match :: "string \<Rightarrow> string AnimechanQuote \<Rightarrow> string Match option" where
  "spec_match query q =
     map_option (withMatchType q) (spec_classify (trim (toLowerCase (quote q))) query)"

section \<open>Outcomes of a lookup of the workflow\<close>

text \<open>
  A lookup has failed when the fetch was rejected, the response is not ok (not 2xx), or
  reading the body as JSON threw. It has delivered \<open>quotes\<close> when the response is ok and
  its body is an array that the steps' callback turns into \<open>quotes\<close>.
\<close>

fun lookupFailed :: "fetched \<Rightarrow> bool" where
  "lookupFailed (Inl e) = True"
| "lookupFailed (Inr (Response okFlag (Inl e))) = True"
| "lookupFailed (Inr (Response okFlag (Inr body))) = (\<not> okFlag)"

definition delivered :: "fetched \<Rightarrow> jsval AnimechanQuote list \<Rightarrow> bool" where
  "delivered f quotes =
     (\<exists>body. f = Inr (Response True (Inr body)) \<and> arrayMap ''data'' copyQuote body = Inr quotes)"

section \<open>Example requests\<close>

definition pool_of :: "string list \<Rightarrow> string AnimechanQuote list" where
  "pool_of texts =
     map (\<lambda>t. \<lparr>quote = t, anime = ''Death Note'', character = ''Light Yagami''\<rparr>) texts"

definition request :: "string \<Rightarrow> string list \<Rightarrow> string Collected" where
  "request text texts =
     \<lparr>cq_quote = text, allQuotes = pool_of texts, cq_character = Some ''Light Yagami'',
      cq_anime = None\<rparr>"

definition bareBody :: "string list \<Rightarrow> jsval" where
  "bareBody texts =
     JArr (map (\<lambda>t. JObj [(''quote'', JStr t), (''anime'', JStr ''One Piece''),
                            (''character'', JStr ''Luffy'')]) texts)"

definition luffy :: "string \<Rightarrow> jsval AnimechanQuote" where
  "luffy t = \<lparr>quote = JStr t, anime = JStr ''One Piece'', character = JStr ''Luffy''\<rparr>"

definition okBody :: "jsval \<Rightarrow> fetched" where
  "okBody body = Inr (Response True (Inr body))"

definition toolRequest :: "string option \<Rightarrow> ToolContext" where
  "toolRequest text =
     \<lparr>tc_quote = text, tc_character = Some ''Luffy'', tc_anime = None, tc_apiKey = None\<rparr>"

definition workflowRequest :: QueryInput where
  "workflowRequest =
     \<lparr>q_quote = ''I will be king'', q_character = Some ''Luffy'', q_anime = Some ''One Piece'',
      q_apiKey = None\<rparr>"

definition sixTexts :: "string list" where
  "sixTexts = [''a1'', ''a2'', ''a3'', ''a4'', ''a5'', ''a6'']"

section \<open>Sets, substrings and the word overlap\<close>

lemma set_new_Set: "set (new_Set xs) = set xs"
  by (induction xs) auto

lemma distinct_new_Set: "distinct (new_Set xs)"
  by (induction xs) (auto simp: set_new_Set)

lemma length_new_Set: "length (new_Set xs) = card (set xs)"
  using distinct_card [OF distinct_new_Set, of xs] by (simp add: set_new_Set)

lemma new_Set_distinct: "distinct xs \<Longrightarrow> new_Set xs = xs"
  by (induction xs) (auto simp: set_new_Set filter_id_conv)

lemma startsWith_iff: "startsWith s t \<longleftrightarrow> (\<exists>after. s = t @ after)"
  by (induction s t rule: startsWith.induct) auto

lemma includes_str_iff: "includes_str s t \<longleftrightarrow> isSubstring t s"
proof (induction s)
  case Nil
  show ?case by (auto simp: isSubstring_def)
next
  case (Cons c s)
  have "isSubstring t (c # s) \<longleftrightarrow> (\<exists>after. c # s = t @ after) \<or> isSubstring t s"
  proof
    assume "isSubstring t (c # s)"
    then obtain before after where eq: "c # s = before @ t @ after"
      by (auto simp: isSubstring_def)
    show "(\<exists>after. c # s = t @ after) \<or> isSubstring t s"
    proof (cases before)
      case Nil
      with eq show ?thesis by auto
    next
      case (Cons b bs)
      with eq have "s = bs @ t @ after" by simp
      then show ?thesis by (auto simp: isSubstring_def)
    qed
  next
    assume "(\<exists>after. c # s = t @ after) \<or> isSubstring t s"
    then show "isSubstring t (c # s)"
    proof
      assume "\<exists>after. c # s = t @ after"
      then obtain after where "c # s = [] @ t @ after" by auto
      then show ?thesis unfolding isSubstring_def by blast
    next
      assume "isSubstring t s"
      then obtain before after where "s = before @ t @ after"
        by (auto simp: isSubstring_def)
      then have "c # s = (c # before) @ t @ after" by simp
      then show ?thesis unfolding isSubstring_def by blast
    qed
  qed
  with Cons show ?case by (simp add: startsWith_iff)
qed

text \<open>The lists the code builds for the intersection and the union have the sizes of
  the set-theoretic intersection and union of the two word sets.\<close>

lemma similarity_eq:
  "similarity a b =
     of_nat (card (wordSet a \<inter> wordSet b)) / of_nat (card (wordSet a \<union> wordSet b))"
proof -
  have "set (filter (\<lambda>x. Set_has (new_Set (split_ws b)) x) (new_Set (split_ws a)))
        = wordSet a \<inter> wordSet b"
    by (auto simp: Set_has_def set_new_Set wordSet_def)
  moreover have "distinct (filter (\<lambda>x. Set_has (new_Set (split_ws b)) x) (new_Set (split_ws a)))"
    by (simp add: distinct_new_Set)
  ultimately show ?thesis
    by (simp add: similarity_def Let_def length_new_Set set_new_Set wordSet_def new_Set_distinct
                  distinct_card)
qed

lemmas request_eval =
  request_def pool_of_def allMatches_def uniqueQuotes_def new_Map_def Map_values_def
  withMatchType_def similarity_def split_ws_def isWhiteSpace_def Set_has_def trim_def
  trimStart_def toLowerCase_def Let_def

section \<open>The matcher\<close>

lemma findMatches_spec: "findMatches query qs = List.map_filter (spec_match query) qs"
proof (induction qs)
  case Nil
  show ?case by simp
next
  case (Cons q qs)
  then show ?case
    by (simp add: spec_match_def spec_classify_def Let_def
                  includes_str_iff similarity_eq length_new_Set wordSet_def disj_commute)
qed

lemma set_map_filter_iff:
  "m \<in> set (List.map_filter f xs) \<longleftrightarrow> (\<exists>x\<in>set xs. f x = Some m)"
  by (induction xs) (auto split: option.splits)

text \<open>The Map of the verify step keeps one record for every text of the pool, and only
  records of the pool.\<close>

lemma Map_set_keys: "fst ` set (Map_set m k v) = insert k (fst ` set m)"
  by (induction m k v rule: Map_set.induct) auto

lemma Map_set_entries:
  "(k', v') \<in> set (Map_set m k v) \<Longrightarrow> (k', v') = (k, v) \<or> (k', v') \<in> set m"
  by (induction m k v rule: Map_set.induct) (auto split: if_splits)

lemma foldl_Map_set_keys:
  "fst ` set (foldl (\<lambda>m (k, v). Map_set m k v) m es) = fst ` set m \<union> fst ` set es"
proof (induction es arbitrary: m)
  case Nil
  show ?case by simp
next
  case (Cons x es)
  obtain k v where x: "x = (k, v)" by (cases x)
  have "fst ` set (foldl (\<lambda>m (k, v). Map_set m k v) (Map_set m k v) es)
        = fst ` set (Map_set m k v) \<union> fst ` set es"
    by (rule Cons.IH)
  with x show ?case by (simp add: Map_set_keys)
qed

lemma foldl_Map_set_entries:
  "e \<in> set (foldl (\<lambda>m (k, v). Map_set m k v) m es) \<Longrightarrow> e \<in> set m \<or> e \<in> set es"
proof (induction es arbitrary: m)
  case Nil
  then show ?case by simp
next
  case (Cons x es)
  obtain k v where x: "x = (k, v)" by (cases x)
  from Cons.prems x have "e \<in> set (foldl (\<lambda>m (k, v). Map_set m k v) (Map_set m k v) es)"
    by simp
  from Cons.IH [OF this] show ?case
    using Map_set_entries [of "fst e" "snd e" m k v] x by auto
qed

lemma uniqueQuotes_subset: "set (uniqueQuotes qs) \<subseteq> set qs"
proof
  fix u assume "u \<in> set (uniqueQuotes qs)"
  then obtain k where "(k, u) \<in> set (new_Map (map (\<lambda>q. (quote q, q)) qs))"
    by (auto simp: uniqueQuotes_def Map_values_def)
  from foldl_Map_set_entries [OF this [unfolded new_Map_def]]
  show "u \<in> set qs" by auto
qed

lemma uniqueQuotes_texts: "quote ` set (uniqueQuotes qs) = quote ` set qs"
proof
  show "quote ` set (uniqueQuotes qs) \<subseteq> quote ` set qs"
    using uniqueQuotes_subset [of qs] by auto
  show "quote ` set qs \<subseteq> quote ` set (uniqueQuotes qs)"
  proof
    fix t assume "t \<in> quote ` set qs"
    then have "t \<in> fst ` set (map (\<lambda>q. (quote q, q)) qs)" by force
    then have "t \<in> fst ` set (new_Map (map (\<lambda>q. (quote q, q)) qs))"
      by (simp add: new_Map_def foldl_Map_set_keys)
    then obtain u where in_map: "(t, u) \<in> set (new_Map (map (\<lambda>q. (quote q, q)) qs))"
      by auto
    from foldl_Map_set_entries [OF this [unfolded new_Map_def]]
    have "quote u = t" by auto
    moreover from in_map have "u \<in> set (uniqueQuotes qs)"
      by (force simp: uniqueQuotes_def Map_values_def)
    ultimately show "t \<in> quote ` set (uniqueQuotes qs)" by auto
  qed
qed

lemma pool_classification:
  assumes "q \<in> set (allQuotes d)"
  shows "(\<exists>m\<in>set (allMatches d). quote m = quote q \<and> matchType m = t)
         \<longleftrightarrow> spec_classify (trim (toLowerCase (quote q))) (trim (toLowerCase (cq_quote d)))
             = Some t"
proof -
  let ?query = "trim (toLowerCase (cq_quote d))"
  have set_eq: "set (allMatches d)
      = {m. \<exists>u\<in>set (uniqueQuotes (allQuotes d)). spec_match ?query u = Some m}"
    by (auto simp: allMatches_def findMatches_spec set_map_filter_iff)
  have m_iff: "spec_match ?query u = Some m \<longleftrightarrow>
      (\<exists>t'. spec_classify (trim (toLowerCase (quote u))) ?query = Some t'
            \<and> m = withMatchType u t')"
    for u m by (auto simp: spec_match_def)
  show ?thesis
  proof
    assume "\<exists>m\<in>set (allMatches d). quote m = quote q \<and> matchType m = t"
    then obtain m u t' where "u \<in> set (uniqueQuotes (allQuotes d))"
      "spec_classify (trim (toLowerCase (quote u))) ?query = Some t'" "m = withMatchType u t'"
      "quote m = quote q" "matchType m = t"
      by (auto simp: set_eq m_iff)
    then show "spec_classify (trim (toLowerCase (quote q))) ?query = Some t"
      by (simp add: withMatchType_def)
  next
    assume c: "spec_classify (trim (toLowerCase (quote q))) ?query = Some t"
    from assms have "quote q \<in> quote ` set (uniqueQuotes (allQuotes d))"
      by (simp add: uniqueQuotes_texts)
    then obtain u where u: "u \<in> set (uniqueQuotes (allQuotes d))" "quote u = quote q" by auto
    with c have "spec_match ?query u = Some (withMatchType u t)" by (simp add: spec_match_def)
    with u have "withMatchType u t \<in> set (allMatches d)" by (auto simp: set_eq)
    moreover have "quote (withMatchType u t) = quote q" "matchType (withMatchType u t) = t"
      using u by (simp_all add: withMatchType_def)
    ultimately show "\<exists>m\<in>set (allMatches d). quote m = quote q \<and> matchType m = t" by blast
  qed
qed

text \<open>
  C2. The matching loop gives every quote it is run on the classification of the first
  applicable rule of the specification, on the lower-cased and trimmed texts, keeps the
  quotes in order and leaves out the quotes no rule applies to. A candidate whose
  normalised text is the normalised query is exact, wherever it stands. For every
  candidate of the pool, the full match list holds its text with a match type exactly
  when that is the classification of its text.
\<close>

theorem matcher_first_applicable_rule:
  "findMatches query qs = List.map_filter (spec_match query) qs
   \<and> spec_classify query query = Some Exact
   \<and> (q \<in> set (allQuotes d) \<longrightarrow>
        ((\<exists>m\<in>set (allMatches d). quote m = quote q \<and> matchType m = t)
         \<longleftrightarrow> spec_classify (trim (toLowerCase (quote q))) (trim (toLowerCase (cq_quote d)))
             = Some t))"
  by (simp add: findMatches_spec spec_classify_def pool_classification)

theorem matcher_first_applicable_rule_witness:
  "allMatches (request ''A B C D'' ['' a b c d '', ''a b'', ''e a b c'', ''x y z'', ''a b''])
   = [\<lparr>quote = '' a b c d '', anime = ''Death Note'', character = ''Light Yagami'',
       matchType = Exact\<rparr>,
      \<lparr>quote = ''a b'', anime = ''Death Note'', character = ''Light Yagami'',
       matchType = Partial\<rparr>,
      \<lparr>quote = ''e a b c'', anime = ''Death Note'', character = ''Light Yagami'',
       matchType = Similar\<rparr>]
   \<and> List.map_filter (spec_match ''a b c d'')
         (pool_of ['' a b c d '', ''a b'', ''e a b c'', ''x y z''])
     = allMatches (request ''A B C D'' ['' a b c d '', ''a b'', ''e a b c'', ''x y z'', ''a b''])
   \<and> spec_classify (trim (toLowerCase ''e a b c'')) (trim (toLowerCase ''A B C D''))
     = Some Similar"
proof -
  have ev: "allMatches (request ''A B C D'' ['' a b c d '', ''a b'', ''e a b c'', ''x y z'', ''a b''])
    = [\<lparr>quote = '' a b c d '', anime = ''Death Note'', character = ''Light Yagami'',
        matchType = Exact\<rparr>,
       \<lparr>quote = ''a b'', anime = ''Death Note'', character = ''Light Yagami'',
        matchType = Partial\<rparr>,
       \<lparr>quote = ''e a b c'', anime = ''Death Note'', character = ''Light Yagami'',
        matchType = Similar\<rparr>]"
    by (simp add: request_eval)
  have loop: "allMatches (request ''A B C D'' ['' a b c d '', ''a b'', ''e a b c'', ''x y z'', ''a b''])
    = findMatches ''a b c d'' (pool_of ['' a b c d '', ''a b'', ''e a b c'', ''x y z''])"
    by (simp add: request_eval)
  have mem: "\<lparr>quote = ''e a b c'', anime = ''Death Note'', character = ''Light Yagami''\<rparr>
    \<in> set (allQuotes (request ''A B C D'' ['' a b c d '', ''a b'', ''e a b c'', ''x y z'', ''a b'']))"
    by (simp add: request_def pool_of_def)
  have ex: "\<exists>m\<in>set (allMatches (request ''A B C D''
                 ['' a b c d '', ''a b'', ''e a b c'', ''x y z'', ''a b''])).
              quote m = ''e a b c'' \<and> matchType m = Similar"
    by (simp add: ev)
  note inst = matcher_first_applicable_rule
    [of "''a b c d''" "pool_of ['' a b c d '', ''a b'', ''e a b c'', ''x y z'']"
        "\<lparr>quote = ''e a b c'', anime = ''Death Note'', character = ''Light Yagami''\<rparr>"
        "request ''A B C D'' ['' a b c d '', ''a b'', ''e a b c'', ''x y z'', ''a b'']" Similar]
  from inst have 1: "List.map_filter (spec_match ''a b c d'')
          (pool_of ['' a b c d '', ''a b'', ''e a b c'', ''x y z''])
        = findMatches ''a b c d'' (pool_of ['' a b c d '', ''a b'', ''e a b c'', ''x y z''])"
    by simp
  have q: "cq_quote (request ''A B C D'' ['' a b c d '', ''a b'', ''e a b c'', ''x y z'', ''a b''])
           = ''A B C D''"
    by (simp add: request_def)
  from inst mem ex have "spec_classify (trim (toLowerCase ''e a b c''))
      (trim (toLowerCase (cq_quote (request ''A B C D''
         ['' a b c d '', ''a b'', ''e a b c'', ''x y z'', ''a b''])))) = Some Similar"
    by simp
  then have 2: "spec_classify (trim (toLowerCase ''e a b c'')) (trim (toLowerCase ''A B C D''))
     = Some Similar"
    by (simp only: q)
  from ev loop 1 2 show ?thesis by simp
qed

section \<open>Exceptions as values\<close>

lemma bindE_Inr_iff: "bindE m f = Inr y \<longleftrightarrow> (\<exists>x. m = Inr x \<and> f x = Inr y)"
  by (cases m) (auto simp: bindE_def)

lemma mapE_Inr_length: "mapE f xs = Inr ys \<Longrightarrow> length ys = length xs"
  by (induction xs arbitrary: ys) (auto simp: bindE_Inr_iff)

lemma mapE_Inr_all:
  "mapE f xs = Inr ys \<Longrightarrow> (\<And>x y. f x = Inr y \<Longrightarrow> P y) \<Longrightarrow> list_all P ys"
  by (induction xs arbitrary: ys) (auto simp: bindE_Inr_iff)

lemma mapE_total:
  "list_all (\<lambda>x. \<exists>y. f x = Inr y) xs \<Longrightarrow> \<exists>ys. mapE f xs = Inr ys"
  by (induction xs) (auto simp: bindE_Inr_iff)

lemma mapE_total_length:
  "list_all (\<lambda>x. \<exists>y. f x = Inr y) xs \<Longrightarrow> \<exists>ys. mapE f xs = Inr ys \<and> length ys = length xs"
  using mapE_total [of f xs] mapE_Inr_length [of f xs] by auto

lemma filterE_Inr_filter:
  "filterE p xs = Inr ys \<Longrightarrow> ys = filter (\<lambda>x. p x = Inr True) xs"
  by (induction xs arbitrary: ys) (auto simp: bindE_Inr_iff)

lemma arrayMap_Inr: "arrayMap expr f v = Inr ys \<Longrightarrow> \<exists>xs. v = JArr xs \<and> mapE f xs = Inr ys"
  by (cases v) (auto simp: arrayMap_def split: if_splits)

lemmas tool_eval =
  toolRequest_def okBody_def bareBody_def luffy_def sixTexts_def verifyAnimeQuoteTool_def
  verifyTool_try_def toolQuotes_def toolVerdict_def toolLookup_def parseApiResponse_def
  isWrapper_def arrayMap_def bareItem_def wrapperItem_def nameOrUnknown_def orElse_def
  getProp_def bindE_def quoteMatches_def toLowerCase_js_def toolNotFound_def toLowerCase_def
  trim_def trimStart_def isWhiteSpace_def Let_def

lemmas workflow_eval =
  workflowRequest_def okBody_def bareBody_def luffy_def searchQuotes_def searchQuotes_try_def
  collectQuotes_def collectQuotes_try_def mergeQuotes_def existing_has_def sameValueZero_def
  copyQuote_def arrayMap_def getProp_def bindE_def

section \<open>The verdict of the verify step\<close>

lemma verifyQuote_matches: "matches (verifyQuote d) = take 5 (allMatches d)"
  by (simp add: verifyQuote_def Let_def split: prod.splits)

lemma verifyQuote_verified: "verified (verifyQuote d) \<longleftrightarrow> allMatches d \<noteq> []"
  by (auto simp: verifyQuote_def Let_def filter_empty_conv split: prod.splits if_splits)

lemma verifyQuote_confidence:
  "confidence (verifyQuote d) =
     (if \<exists>m\<in>set (allMatches d). matchType m = Exact then High
      else if \<exists>m\<in>set (allMatches d). matchType m = Partial then Medium
      else if allMatches d \<noteq> [] then Low
      else if allQuotes d \<noteq> [] then High else Medium)"
  by (auto simp: verifyQuote_def Let_def filter_empty_conv split: prod.splits if_splits)

lemma verifyQuote_message_none: "allMatches d = [] \<Longrightarrow> message (verifyQuote d) = notFoundMessage"
  by (simp add: verifyQuote_def Let_def)

lemma only_similar:
  "list_all (\<lambda>m. matchType m = Similar) found \<Longrightarrow>
   \<not> (\<exists>m\<in>set found. matchType m = Exact) \<and> \<not> (\<exists>m\<in>set found. matchType m = Partial)"
  by (auto simp: list_all_iff)

text \<open>
  C1. The verdict of the verify step, which always has a literal quote. With \<open>allMatches d\<close>
  the full match list: an exact match gives verified and high; no exact but a partial
  match gives verified and medium; matches that are all similar give verified and low; no
  match with a non-empty pool gives not verified and high; no match with an empty pool
  gives not verified and medium; the two last branches carry the same message.
\<close>

theorem verifyQuote_decision_table:
  "((\<exists>m\<in>set (allMatches d). matchType m = Exact) \<longrightarrow>
      verified (verifyQuote d) \<and> confidence (verifyQuote d) = High)
   \<and> (\<not> (\<exists>m\<in>set (allMatches d). matchType m = Exact)
        \<and> (\<exists>m\<in>set (allMatches d). matchType m = Partial) \<longrightarrow>
      verified (verifyQuote d) \<and> confidence (verifyQuote d) = Medium)
   \<and> (allMatches d \<noteq> [] \<and> list_all (\<lambda>m. matchType m = Similar) (allMatches d) \<longrightarrow>
      verified (verifyQuote d) \<and> confidence (verifyQuote d) = Low)
   \<and> (allMatches d = [] \<and> allQuotes d \<noteq> [] \<longrightarrow>
      \<not> verified (verifyQuote d) \<and> confidence (verifyQuote d) = High
      \<and> message (verifyQuote d) = notFoundMessage)
   \<and> (allMatches d = [] \<and> allQuotes d = [] \<longrightarrow>
      \<not> verified (verifyQuote d) \<and> confidence (verifyQuote d) = Medium
      \<and> message (verifyQuote d) = notFoundMessage)"
proof (intro conjI impI)
  assume "\<exists>m\<in>set (allMatches d). matchType m = Exact"
  then show "verified (verifyQuote d)" "confidence (verifyQuote d) = High"
    by (auto simp: verifyQuote_verified verifyQuote_confidence)
next
  assume "\<not> (\<exists>m\<in>set (allMatches d). matchType m = Exact)
          \<and> (\<exists>m\<in>set (allMatches d). matchType m = Partial)"
  then show "verified (verifyQuote d)" "confidence (verifyQuote d) = Medium"
    by (auto simp: verifyQuote_verified verifyQuote_confidence)
next
  assume a: "allMatches d \<noteq> [] \<and> list_all (\<lambda>m. matchType m = Similar) (allMatches d)"
  then show "verified (verifyQuote d)"
    by (simp add: verifyQuote_verified)
  from a only_similar [of "allMatches d"] show "confidence (verifyQuote d) = Low"
    by (simp add: verifyQuote_confidence)
next
  assume a: "allMatches d = [] \<and> allQuotes d \<noteq> []"
  then show "\<not> verified (verifyQuote d)" "confidence (verifyQuote d) = High"
    "message (verifyQuote d) = notFoundMessage"
    by (simp_all add: verifyQuote_verified verifyQuote_confidence verifyQuote_message_none)
next
  assume a: "allMatches d = [] \<and> allQuotes d = []"
  then show "\<not> verified (verifyQuote d)" "confidence (verifyQuote d) = Medium"
    "message (verifyQuote d) = notFoundMessage"
    by (simp_all add: verifyQuote_verified verifyQuote_confidence verifyQuote_message_none)
qed

lemma request_exact:
  "allMatches (request ''New World'' ['' new world'']) =
     [\<lparr>quote = '' new world'', anime = ''Death Note'', character = ''Light Yagami'',
       matchType = Exact\<rparr>]"
  by (simp add: request_eval)

lemma request_partial:
  "allMatches (request ''New World'' [''The new world'']) =
     [\<lparr>quote = ''The new world'', anime = ''Death Note'', character = ''Light Yagami'',
       matchType = Partial\<rparr>]"
  by (simp add: request_eval)

lemma request_similar:
  "allMatches (request ''a b c d'' [''a b c e'']) =
     [\<lparr>quote = ''a b c e'', anime = ''Death Note'', character = ''Light Yagami'',
       matchType = Similar\<rparr>]"
  by (simp add: request_eval)

lemma request_no_match: "allMatches (request ''x'' [''y'']) = []"
  by (simp add: request_eval)

lemma request_empty_pool: "allMatches (request ''x'' []) = []"
  by (simp add: request_eval)

theorem verifyQuote_decision_table_witness:
  "(\<exists>m\<in>set (allMatches (request ''New World'' ['' new world''])). matchType m = Exact)
   \<and> verified (verifyQuote (request ''New World'' ['' new world'']))
   \<and> confidence (verifyQuote (request ''New World'' ['' new world''])) = High
   \<and> (\<exists>m\<in>set (allMatches (request ''New World'' [''The new world''])). matchType m = Partial)
   \<and> verified (verifyQuote (request ''New World'' [''The new world'']))
   \<and> confidence (verifyQuote (request ''New World'' [''The new world''])) = Medium
   \<and> allMatches (request ''a b c d'' [''a b c e'']) \<noteq> []
   \<and> verified (verifyQuote (request ''a b c d'' [''a b c e'']))
   \<and> confidence (verifyQuote (request ''a b c d'' [''a b c e''])) = Low
   \<and> allQuotes (request ''x'' [''y'']) \<noteq> []
   \<and> \<not> verified (verifyQuote (request ''x'' [''y'']))
   \<and> confidence (verifyQuote (request ''x'' [''y''])) = High
   \<and> message (verifyQuote (request ''x'' [''y''])) = notFoundMessage
   \<and> allQuotes (request ''x'' []) = []
   \<and> \<not> verified (verifyQuote (request ''x'' []))
   \<and> confidence (verifyQuote (request ''x'' [])) = Medium
   \<and> message (verifyQuote (request ''x'' [])) = notFoundMessage"
proof -
  have e: "\<exists>m\<in>set (allMatches (request ''New World'' ['' new world''])). matchType m = Exact"
    by (simp add: request_exact)
  have p: "\<not> (\<exists>m\<in>set (allMatches (request ''New World'' [''The new world''])). matchType m = Exact)
           \<and> (\<exists>m\<in>set (allMatches (request ''New World'' [''The new world''])). matchType m = Partial)"
    by (simp add: request_partial)
  have s: "allMatches (request ''a b c d'' [''a b c e'']) \<noteq> []
           \<and> list_all (\<lambda>m. matchType m = Similar) (allMatches (request ''a b c d'' [''a b c e'']))"
    by (simp add: request_similar)
  have n: "allMatches (request ''x'' [''y'']) = [] \<and> allQuotes (request ''x'' [''y'']) \<noteq> []"
    by (simp add: request_no_match) (simp add: request_def pool_of_def)
  have z: "allMatches (request ''x'' []) = [] \<and> allQuotes (request ''x'' []) = []"
    by (simp add: request_empty_pool) (simp add: request_def pool_of_def)
  from e verifyQuote_decision_table [of "request ''New World'' ['' new world'']"]
  have 1: "verified (verifyQuote (request ''New World'' ['' new world'']))
           \<and> confidence (verifyQuote (request ''New World'' ['' new world''])) = High"
    by blast
  from p verifyQuote_decision_table [of "request ''New World'' [''The new world'']"]
  have 2: "verified (verifyQuote (request ''New World'' [''The new world'']))
           \<and> confidence (verifyQuote (request ''New World'' [''The new world''])) = Medium"
    by blast
  from s verifyQuote_decision_table [of "request ''a b c d'' [''a b c e'']"]
  have 3: "verified (verifyQuote (request ''a b c d'' [''a b c e'']))
           \<and> confidence (verifyQuote (request ''a b c d'' [''a b c e''])) = Low"
    by blast
  from n verifyQuote_decision_table [of "request ''x'' [''y'']"]
  have 4: "\<not> verified (verifyQuote (request ''x'' [''y'']))
           \<and> confidence (verifyQuote (request ''x'' [''y''])) = High
           \<and> message (verifyQuote (request ''x'' [''y''])) = notFoundMessage"
    by blast
  from z verifyQuote_decision_table [of "request ''x'' []"]
  have 5: "\<not> verified (verifyQuote (request ''x'' []))
           \<and> confidence (verifyQuote (request ''x'' [])) = Medium
           \<and> message (verifyQuote (request ''x'' [])) = notFoundMessage"
    by blast
  from e p s n z 1 2 3 4 5 show ?thesis by blast
qed

section \<open>The verdict of the verify tool\<close>

lemma toolVerdict_verified:
  "toolVerdict ctx quotes = Inr v \<Longrightarrow> verified v \<longleftrightarrow> matches v \<noteq> []"
  by (auto simp: toolVerdict_def toolNotFound_def Let_def bindE_Inr_iff split: if_splits)

lemma verifyAnimeQuoteTool_verified:
  "verified (verifyAnimeQuoteTool ctx cf af) \<longleftrightarrow> matches (verifyAnimeQuoteTool ctx cf af) \<noteq> []"
proof (cases "verifyTool_try ctx cf af")
  case (Inl e)
  then show ?thesis by (simp add: verifyAnimeQuoteTool_def)
next
  case (Inr v)
  then have "verified v \<longleftrightarrow> matches v \<noteq> []"
    by (auto simp: verifyTool_try_def bindE_Inr_iff toolVerdict_verified)
  with Inr show ?thesis by (simp add: verifyAnimeQuoteTool_def)
qed

lemma toolQuotes_nothing_given:
  "\<not> given (tc_character ctx) \<Longrightarrow> \<not> given (tc_anime ctx) \<Longrightarrow>
   toolQuotes ctx cf af = Inr []"
  by (simp add: toolQuotes_def bindE_def)

lemma six_quotes:
  "toolQuotes (toolRequest text) (okBody (bareBody sixTexts)) (Inl NonError)
   = Inr (map luffy sixTexts)"
  by (simp add: tool_eval)

text \<open>
  C10. In the verdict of the workflow's verify step and in the verdict of the verify
  tool, on every path (the early return without any input, the verdicts of the try block
  and the verdict of the catch block), verified holds exactly when the matches are not
  empty.
\<close>

theorem verified_iff_matches:
  "(verified (verifyQuote d) \<longleftrightarrow> matches (verifyQuote d) \<noteq> [])
   \<and> (verified (verifyAnimeQuoteTool ctx charFetch animeFetch)
        \<longleftrightarrow> matches (verifyAnimeQuoteTool ctx charFetch animeFetch) \<noteq> [])"
  by (simp add: verifyQuote_verified verifyQuote_matches verifyAnimeQuoteTool_verified)

theorem verified_iff_matches_witness:
  "verified (verifyQuote (request ''New World'' [''The new world'']))
   \<and> matches (verifyQuote (request ''New World'' [''The new world''])) \<noteq> []
   \<and> \<not> verified (verifyAnimeQuoteTool (toolRequest (Some ''zzz'')) (okBody (bareBody sixTexts))
                  (Inl NonError))
   \<and> matches (verifyAnimeQuoteTool (toolRequest (Some ''zzz'')) (okBody (bareBody sixTexts))
                (Inl NonError)) = []"
proof -
  have 1: "matches (verifyQuote (request ''New World'' [''The new world''])) \<noteq> []"
    by (simp add: verifyQuote_matches request_partial)
  have 2: "matches (verifyAnimeQuoteTool (toolRequest (Some ''zzz'')) (okBody (bareBody sixTexts))
                (Inl NonError)) = []"
    by (simp add: tool_eval)
  from 1 2 verified_iff_matches
    [of "request ''New World'' [''The new world'']" "toolRequest (Some ''zzz'')"
        "okBody (bareBody sixTexts)" "Inl NonError"]
  show ?thesis by simp
qed

text \<open>
  C4, as amended. The verify step of the workflow returns the first five entries of the
  full match list, in the order of the pool. The verify tool has no such cap: without a
  quote it returns the first ten quotes it found, with a quote it returns every quote
  that matches.
\<close>

theorem matches_cap:
  "matches (verifyQuote d) = take 5 (allMatches d)
   \<and> length (matches (verifyQuote d)) \<le> 5
   \<and> (\<not> given (tc_quote ctx) \<and> toolQuotes ctx charFetch animeFetch = Inr quotes \<longrightarrow>
        matches (verifyAnimeQuoteTool ctx charFetch animeFetch) = take 10 quotes)
   \<and> (given (tc_quote ctx) \<and> toolQuotes ctx charFetch animeFetch = Inr quotes
        \<and> filterE (quoteMatches (trim (toLowerCase (the (tc_quote ctx))))) quotes = Inr found \<longrightarrow>
        matches (verifyAnimeQuoteTool ctx charFetch animeFetch) = found
        \<and> found = filter (\<lambda>q. quoteMatches (trim (toLowerCase (the (tc_quote ctx)))) q = Inr True)
                    quotes)"
proof (intro conjI impI)
  show "matches (verifyQuote d) = take 5 (allMatches d)" by (rule verifyQuote_matches)
  then show "length (matches (verifyQuote d)) \<le> 5" by simp
next
  assume "\<not> given (tc_quote ctx) \<and> toolQuotes ctx charFetch animeFetch = Inr quotes"
  then show "matches (verifyAnimeQuoteTool ctx charFetch animeFetch) = take 10 quotes"
    using toolQuotes_nothing_given [of ctx charFetch animeFetch]
    by (auto simp: verifyAnimeQuoteTool_def verifyTool_try_def toolVerdict_def toolNotFound_def
                   bindE_def)
next
  assume a: "given (tc_quote ctx) \<and> toolQuotes ctx charFetch animeFetch = Inr quotes
        \<and> filterE (quoteMatches (trim (toLowerCase (the (tc_quote ctx))))) quotes = Inr found"
  then show "matches (verifyAnimeQuoteTool ctx charFetch animeFetch) = found"
    by (auto simp: verifyAnimeQuoteTool_def verifyTool_try_def toolVerdict_def toolNotFound_def
                   bindE_def Let_def)
  from a show "found = filter (\<lambda>q. quoteMatches (trim (toLowerCase (the (tc_quote ctx)))) q
                                   = Inr True) quotes"
    by (simp add: filterE_Inr_filter)
qed

theorem matches_cap_witness:
  "length (allMatches (request ''a'' sixTexts)) = 6
   \<and> length (matches (verifyQuote (request ''a'' sixTexts))) = 5
   \<and> matches (verifyAnimeQuoteTool (toolRequest None) (okBody (bareBody sixTexts)) (Inl NonError))
     = take 10 (map luffy sixTexts)
   \<and> matches (verifyAnimeQuoteTool (toolRequest (Some ''A'')) (okBody (bareBody sixTexts))
                (Inl NonError))
     = map luffy sixTexts"
proof -
  have six: "length (allMatches (request ''a'' sixTexts)) = 6"
    by (simp add: request_eval sixTexts_def)
  have f: "filterE (quoteMatches (trim (toLowerCase (the (tc_quote (toolRequest (Some ''A'')))))))
             (map luffy sixTexts) = Inr (map luffy sixTexts)"
    by (simp add: tool_eval)
  have n: "\<not> given (tc_quote (toolRequest None))" and g: "given (tc_quote (toolRequest (Some ''A'')))"
    by (simp_all add: toolRequest_def)
  from six matches_cap [of "request ''a'' sixTexts"]
  have 1: "length (matches (verifyQuote (request ''a'' sixTexts))) = 5" by simp
  from n six_quotes [of None]
    matches_cap [of _ "toolRequest None" "okBody (bareBody sixTexts)" "Inl NonError"
                    "map luffy sixTexts"]
  have 2: "matches (verifyAnimeQuoteTool (toolRequest None) (okBody (bareBody sixTexts))
             (Inl NonError)) = take 10 (map luffy sixTexts)" by blast
  from g f six_quotes [of "Some ''A''"]
    matches_cap [of _ "toolRequest (Some ''A'')" "okBody (bareBody sixTexts)" "Inl NonError"
                    "map luffy sixTexts" "map luffy sixTexts"]
  have 3: "matches (verifyAnimeQuoteTool (toolRequest (Some ''A'')) (okBody (bareBody sixTexts))
             (Inl NonError)) = map luffy sixTexts" by blast
  from six 1 2 3 show ?thesis by blast
qed

text \<open>The claim as stated fails on the tool: six quotes that all contain the query are all
  returned.\<close>

theorem matches_cap_counterexample:
  "\<not> length (matches (verifyAnimeQuoteTool (toolRequest (Some ''A'')) (okBody (bareBody sixTexts))
                        (Inl NonError))) \<le> 5"
  by (simp add: tool_eval)

text \<open>
  C5, as amended. Without a literal quote, with a character or an anime, and with a
  non-empty list of quotes found, the tool does no matching and returns verified, medium,
  the message with the number of quotes found, and the first ten quotes.
\<close>

theorem no_quote_branch:
  "\<not> given (tc_quote ctx) \<Longrightarrow> given (tc_character ctx) \<or> given (tc_anime ctx) \<Longrightarrow>
   toolQuotes ctx charFetch animeFetch = Inr quotes \<Longrightarrow> quotes \<noteq> [] \<Longrightarrow>
   verifyAnimeQuoteTool ctx charFetch animeFetch =
     \<lparr>verified = True, confidence = Medium, matches = take 10 quotes,
      message = ''Found '' @ show_nat (length quotes) @ '' quote(s) for the specified criteria.''\<rparr>"
  by (auto simp: verifyAnimeQuoteTool_def verifyTool_try_def toolVerdict_def bindE_def)

theorem no_quote_branch_witness:
  "verifyAnimeQuoteTool (toolRequest None) (okBody (bareBody sixTexts)) (Inl NonError) =
     \<lparr>verified = True, confidence = Medium, matches = map luffy sixTexts,
      message = ''Found 6 quote(s) for the specified criteria.''\<rparr>"
proof -
  have n: "\<not> given (tc_quote (toolRequest None))"
    and c: "given (tc_character (toolRequest None)) \<or> given (tc_anime (toolRequest None))"
    by (simp_all add: toolRequest_def)
  have ne: "map luffy sixTexts \<noteq> []" by (simp add: sixTexts_def)
  have len: "show_nat (length (map luffy sixTexts)) = ''6''"
    by (simp add: sixTexts_def show_nat.simps digit_char_def)
  have tk: "take 10 (map luffy sixTexts) = map luffy sixTexts" by (simp add: sixTexts_def)
  from no_quote_branch [OF n c six_quotes ne] len tk show ?thesis by simp
qed

text \<open>The claim as stated fails at six quotes found: all six are returned, not the first
  five.\<close>

theorem no_quote_branch_counterexample:
  "toolQuotes (toolRequest None) (okBody (bareBody sixTexts)) (Inl NonError)
     = Inr (map luffy sixTexts)
   \<and> matches (verifyAnimeQuoteTool (toolRequest None) (okBody (bareBody sixTexts)) (Inl NonError))
     \<noteq> take 5 (map luffy sixTexts)"
  by (simp add: tool_eval)

section \<open>Exceptions at the boundary\<close>

text \<open>
  C9, as amended. The verify tool never throws: every exception of its try block (a
  rejected fetch, a body that is not JSON, a type error while parsing or matching) becomes
  the verdict not verified, low, no matches, with a message that begins with
  \<^verbatim>\<open>Error during verification\<close>. The report step of the workflow has no such boundary:
  it throws when no agent is registered and passes on what the agent throws.
\<close>

theorem tool_catches_everything:
  "(given (tc_quote ctx) \<or> given (tc_character ctx) \<or> given (tc_anime ctx) \<longrightarrow>
    verifyTool_try ctx charFetch animeFetch = Inl e \<longrightarrow>
    verifyAnimeQuoteTool ctx charFetch animeFetch =
      \<lparr>verified = False, confidence = Low, matches = [],
       message = ''Error during verification: '' @ catchMessage e\<rparr>)
   \<and> generateVerificationReport None d = Inl (Error ''Anime agent not found'')
   \<and> (generate (reportPrompt d) = Inl e' \<longrightarrow>
        generateVerificationReport (Some generate) d = Inl e')"
  by (auto simp: verifyAnimeQuoteTool_def generateVerificationReport_def bindE_def)

theorem tool_catches_everything_witness:
  "verifyTool_try (toolRequest (Some ''gomu'')) (Inl (TypeError ''fetch failed'')) (Inl NonError)
     = Inl (TypeError ''fetch failed'')
   \<and> verifyAnimeQuoteTool (toolRequest (Some ''gomu'')) (Inl (TypeError ''fetch failed''))
       (Inl NonError)
     = \<lparr>verified = False, confidence = Low, matches = [],
        message = ''Error during verification: fetch failed''\<rparr>
   \<and> generateVerificationReport (Some (\<lambda>prompt. Inl (Error ''model unavailable'')))
       (verifyQuote (request ''x'' [''y'']))
     = Inl (Error ''model unavailable'')"
proof -
  have t: "verifyTool_try (toolRequest (Some ''gomu'')) (Inl (TypeError ''fetch failed''))
             (Inl NonError) = Inl (TypeError ''fetch failed'')"
    by (simp add: tool_eval)
  have g: "given (tc_quote (toolRequest (Some ''gomu'')))
           \<or> given (tc_character (toolRequest (Some ''gomu'')))
           \<or> given (tc_anime (toolRequest (Some ''gomu'')))"
    by (simp add: toolRequest_def)
  have a: "(\<lambda>prompt. Inl (Error ''model unavailable''))
             (reportPrompt (verifyQuote (request ''x'' [''y'']))) = Inl (Error ''model unavailable'')"
    by simp
  from t g a tool_catches_everything
    [of "toolRequest (Some ''gomu'')" "Inl (TypeError ''fetch failed'')" "Inl NonError"
        "TypeError ''fetch failed''" "verifyQuote (request ''x'' [''y''])"
        "\<lambda>prompt. Inl (Error ''model unavailable'')" "Error ''model unavailable''"]
  show ?thesis by simp
qed

text \<open>The claim as stated fails on the workflow: when the agent throws, or when no agent
  is registered, the report step ends in that exception, not in a verdict.\<close>

theorem report_step_counterexample:
  "generateVerificationReport_execute (Some (\<lambda>prompt. Inl (Error ''model unavailable'')))
     (Some (verifyQuote (request ''x'' [''y''])))
     = Inl (Error ''model unavailable'')
   \<and> generateVerificationReport_execute None (Some (verifyQuote (request ''x'' [''y''])))
     = Inl (Error ''Anime agent not found'')"
  by (simp add: generateVerificationReport_execute_def requireInput_def
                generateVerificationReport_def bindE_def)

section \<open>The records of a parsed response\<close>

lemma truthy_orElse_Unknown: "truthy (orElse v (JStr ''Unknown''))"
  by (simp add: orElse_def)

lemma truthy_not_nullish: "truthy v \<Longrightarrow> \<not> isNullish v"
  by (cases v) auto

lemma nameOrUnknown_not_nullish: "\<not> isNullish (nameOrUnknown v)"
  by (cases v) (auto simp: nameOrUnknown_def truthy_orElse_Unknown truthy_not_nullish)

lemma wrapperItem_fields:
  "wrapperItem item = Inr q \<Longrightarrow> truthy (anime q) \<and> truthy (character q)"
  by (auto simp: wrapperItem_def bindE_Inr_iff truthy_orElse_Unknown)

lemma bareItem_fields:
  "bareItem item = Inr q \<Longrightarrow> \<not> isNullish (anime q) \<and> \<not> isNullish (character q)"
  by (auto simp: bareItem_def bindE_Inr_iff nameOrUnknown_not_nullish)

lemma wrapperItem_total: "\<not> isNullish item \<Longrightarrow> \<exists>q. wrapperItem item = Inr q"
  by (simp add: wrapperItem_def getProp_def bindE_def)

lemma bareItem_total: "\<not> isNullish item \<Longrightarrow> \<exists>q. bareItem item = Inr q"
  by (simp add: bareItem_def getProp_def bindE_def)

text \<open>
  C7, as amended. In every record that \<open>parseApiResponse\<close> produces, the anime and the
  character are never \<^verbatim>\<open>null\<close> or \<^verbatim>\<open>undefined\<close>; for the wrapper shape they are
  truthy, so not the empty string either, a name that is missing or falsy being replaced
  by \<^verbatim>\<open>Unknown\<close>. Nothing is said of the text, and in the bare array shape a field that
  is a string is kept as it is.
\<close>

theorem parsed_names_present:
  assumes "parseApiResponse r = Inr quotes"
  shows "list_all (\<lambda>q. \<not> isNullish (anime q) \<and> \<not> isNullish (character q)) quotes
         \<and> (isWrapper r \<longrightarrow> list_all (\<lambda>q. truthy (anime q) \<and> truthy (character q)) quotes)"
proof (cases "isWrapper r")
  case True
  with assms obtain xs where "mapE wrapperItem xs = Inr quotes"
    by (auto simp: parseApiResponse_def dest: arrayMap_Inr)
  then have "list_all (\<lambda>q. truthy (anime q) \<and> truthy (character q)) quotes"
    by (rule mapE_Inr_all) (rule wrapperItem_fields)
  then show ?thesis by (auto simp: list_all_iff truthy_not_nullish)
next
  case False
  show ?thesis
  proof (cases "isArray r")
    case True
    with False assms obtain xs where "mapE bareItem xs = Inr quotes"
      by (auto simp: parseApiResponse_def dest: arrayMap_Inr)
    then have "list_all (\<lambda>q. \<not> isNullish (anime q) \<and> \<not> isNullish (character q)) quotes"
      by (rule mapE_Inr_all) (rule bareItem_fields)
    with False show ?thesis by simp
  next
    case other: False
    with False assms show ?thesis by (simp add: parseApiResponse_def)
  qed
qed

theorem parsed_names_present_witness:
  "parseApiResponse
     (JObj [(''status'', JStr ''success''),
            (''data'', JArr [JObj [(''content'', JStr ''I will be king''),
                                   (''anime'', JObj [(''name'', JStr '''')]),
                                   (''character'', JNull)]])])
   = Inr [\<lparr>quote = JStr ''I will be king'', anime = JStr ''Unknown'',
           character = JStr ''Unknown''\<rparr>]
   \<and> list_all (\<lambda>q. truthy (anime q) \<and> truthy (character q))
       [\<lparr>quote = JStr ''I will be king'', anime = JStr ''Unknown'',
         character = JStr ''Unknown''\<rparr>]"
proof -
  have p: "parseApiResponse
     (JObj [(''status'', JStr ''success''),
            (''data'', JArr [JObj [(''content'', JStr ''I will be king''),
                                   (''anime'', JObj [(''name'', JStr '''')]),
                                   (''character'', JNull)]])])
   = Inr [\<lparr>quote = JStr ''I will be king'', anime = JStr ''Unknown'',
           character = JStr ''Unknown''\<rparr>]"
    by (simp add: tool_eval)
  have w: "isWrapper
     (JObj [(''status'', JStr ''success''),
            (''data'', JArr [JObj [(''content'', JStr ''I will be king''),
                                   (''anime'', JObj [(''name'', JStr '''')]),
                                   (''character'', JNull)]])])"
    by (simp add: isWrapper_def)
  from parsed_names_present [OF p] w p show ?thesis by blast
qed

text \<open>The claim as stated fails: a bare array item whose anime is the empty string keeps
  it, a wrapper item without content has an undefined text, and the search step of the
  workflow copies a missing field as undefined.\<close>

theorem unknown_sentinel_counterexample:
  "parseApiResponse
     (JArr [JObj [(''quote'', JStr ''I will be king''), (''anime'', JStr ''''),
                  (''character'', JStr ''Luffy'')]])
   = Inr [\<lparr>quote = JStr ''I will be king'', anime = JStr '''', character = JStr ''Luffy''\<rparr>]
   \<and> parseApiResponse
       (JObj [(''status'', JStr ''success''),
              (''data'', JArr [JObj [(''character'', JObj [(''name'', JStr ''Luffy'')])]])])
     = Inr [\<lparr>quote = JUndefined, anime = JStr ''Unknown'', character = JStr ''Luffy''\<rparr>]
   \<and> characterQuotes
       (searchQuotes workflowRequest
          (okBody (JArr [JObj [(''quote'', JStr ''I will be king'')]])))
     = [\<lparr>quote = JStr ''I will be king'', anime = JUndefined, character = JUndefined\<rparr>]"
  by (simp add: tool_eval workflow_eval)

section \<open>The shapes of a response\<close>

text \<open>
  C8, as amended. In the character tool, a body that is not \<^verbatim>\<open>null\<close>, has no truthy
  status and data, and is not an array makes the tool throw an error that ends in
  \<^verbatim>\<open>Unexpected API response format\<close>. In the verify tool, \<open>parseApiResponse\<close> gives
  the empty list of quotes for a body that is neither a wrapper nor an array, and no
  error. A bare array, and a wrapper whose data is an array, with no \<^verbatim>\<open>null\<close> item are
  turned into one record per item.
\<close>

theorem response_shapes:
  "(\<not> isNullish r \<and> \<not> (truthy (optChain r ''status'') \<and> truthy (optChain r ''data''))
      \<and> \<not> isArray r \<longrightarrow>
      getQuotesByCharacterTool_body who r =
        Inl (Error (''Failed to fetch quotes for character '' @ [CHR 0x22] @ who @ [CHR 0x22]
                    @ '': Unexpected API response format'')))
   \<and> (\<not> isWrapper r \<and> \<not> isArray r \<longrightarrow> parseApiResponse r = Inr [])
   \<and> (list_all (\<lambda>item. \<not> isNullish item) items \<longrightarrow>
        (\<exists>quotes. parseApiResponse (JArr items) = Inr quotes \<and> length quotes = length items))
   \<and> (isWrapper r \<and> optChain r ''data'' = JArr items
        \<and> list_all (\<lambda>item. \<not> isNullish item) items \<longrightarrow>
        (\<exists>quotes. parseApiResponse r = Inr quotes \<and> length quotes = length items))"
proof (intro conjI impI)
  assume "\<not> isNullish r \<and> \<not> (truthy (optChain r ''status'') \<and> truthy (optChain r ''data''))
      \<and> \<not> isArray r"
  then show "getQuotesByCharacterTool_body who r =
        Inl (Error (''Failed to fetch quotes for character '' @ [CHR 0x22] @ who @ [CHR 0x22]
                    @ '': Unexpected API response format''))"
    by (auto simp: getQuotesByCharacterTool_body_def characterTool_try_def getProp_def bindE_def)
next
  assume "\<not> isWrapper r \<and> \<not> isArray r"
  then show "parseApiResponse r = Inr []" by (simp add: parseApiResponse_def)
next
  assume "list_all (\<lambda>item. \<not> isNullish item) items"
  then have "list_all (\<lambda>x. \<exists>y. bareItem x = Inr y) items"
    by (auto simp: list_all_iff bareItem_total)
  from mapE_total_length [OF this]
  show "\<exists>quotes. parseApiResponse (JArr items) = Inr quotes \<and> length quotes = length items"
    by (simp add: parseApiResponse_def isWrapper_def arrayMap_def)
next
  assume a: "isWrapper r \<and> optChain r ''data'' = JArr items
        \<and> list_all (\<lambda>item. \<not> isNullish item) items"
  then have "list_all (\<lambda>x. \<exists>y. wrapperItem x = Inr y) items"
    by (auto simp: list_all_iff wrapperItem_total)
  from mapE_total_length [OF this] a
  show "\<exists>quotes. parseApiResponse r = Inr quotes \<and> length quotes = length items"
    by (simp add: parseApiResponse_def arrayMap_def)
qed

theorem response_shapes_witness:
  "getQuotesByCharacterTool_body ''Luffy'' (JObj [(''message'', JStr ''rate limited'')]) =
     Inl (Error (''Failed to fetch quotes for character '' @ [CHR 0x22] @ ''Luffy''
                 @ [CHR 0x22] @ '': Unexpected API response format''))
   \<and> parseApiResponse (JObj [(''message'', JStr ''rate limited'')]) = Inr []
   \<and> (\<exists>quotes. parseApiResponse (JArr [JObj [(''quote'', JStr ''I will be king'')]]) = Inr quotes
        \<and> length quotes = length [JObj [(''quote'', JStr ''I will be king'')]])
   \<and> (\<exists>quotes. parseApiResponse
          (JObj [(''status'', JStr ''success''),
                 (''data'', JArr [JObj [(''content'', JStr ''I will be king'')]])]) = Inr quotes
        \<and> length quotes = length [JObj [(''content'', JStr ''I will be king'')]])"
proof -
  have h1: "\<not> isNullish (JObj [(''message'', JStr ''rate limited'')])
      \<and> \<not> (truthy (optChain (JObj [(''message'', JStr ''rate limited'')]) ''status'')
           \<and> truthy (optChain (JObj [(''message'', JStr ''rate limited'')]) ''data''))
      \<and> \<not> isArray (JObj [(''message'', JStr ''rate limited'')])"
    by simp
  have h2: "\<not> isWrapper (JObj [(''message'', JStr ''rate limited'')])
      \<and> \<not> isArray (JObj [(''message'', JStr ''rate limited'')])"
    by (simp add: isWrapper_def)
  have h3: "list_all (\<lambda>item. \<not> isNullish item) [JObj [(''quote'', JStr ''I will be king'')]]"
    by simp
  have h4: "isWrapper (JObj [(''status'', JStr ''success''),
                 (''data'', JArr [JObj [(''content'', JStr ''I will be king'')]])])
      \<and> optChain (JObj [(''status'', JStr ''success''),
                 (''data'', JArr [JObj [(''content'', JStr ''I will be king'')]])]) ''data''
        = JArr [JObj [(''content'', JStr ''I will be king'')]]
      \<and> list_all (\<lambda>item. \<not> isNullish item) [JObj [(''content'', JStr ''I will be king'')]]"
    by (simp add: isWrapper_def)
  from h1 h2 response_shapes [of "JObj [(''message'', JStr ''rate limited'')]" "''Luffy''"]
  have 1: "getQuotesByCharacterTool_body ''Luffy'' (JObj [(''message'', JStr ''rate limited'')]) =
     Inl (Error (''Failed to fetch quotes for character '' @ [CHR 0x22] @ ''Luffy''
                 @ [CHR 0x22] @ '': Unexpected API response format''))
     \<and> parseApiResponse (JObj [(''message'', JStr ''rate limited'')]) = Inr []"
    by blast
  from h3 response_shapes [of _ _ "[JObj [(''quote'', JStr ''I will be king'')]]"]
  have 2: "\<exists>quotes. parseApiResponse (JArr [JObj [(''quote'', JStr ''I will be king'')]]) = Inr quotes
        \<and> length quotes = length [JObj [(''quote'', JStr ''I will be king'')]]"
    by blast
  from h4 response_shapes
    [of "JObj [(''status'', JStr ''success''),
               (''data'', JArr [JObj [(''content'', JStr ''I will be king'')]])]" _
        "[JObj [(''content'', JStr ''I will be king'')]]"]
  have 3: "\<exists>quotes. parseApiResponse
          (JObj [(''status'', JStr ''success''),
                 (''data'', JArr [JObj [(''content'', JStr ''I will be king'')]])]) = Inr quotes
        \<and> length quotes = length [JObj [(''content'', JStr ''I will be king'')]]"
    by blast
  from 1 2 3 show ?thesis by blast
qed

text \<open>The claim as stated fails in the verify tool: a body of no known shape raises
  nothing, the tool goes on with no quotes and answers that the quote was not found.\<close>

theorem unknown_shape_counterexample:
  "\<not> isWrapper (JObj [(''message'', JStr ''rate limited'')])
   \<and> \<not> isArray (JObj [(''message'', JStr ''rate limited'')])
   \<and> parseApiResponse (JObj [(''message'', JStr ''rate limited'')]) = Inr []
   \<and> verifyAnimeQuoteTool (toolRequest (Some ''I will be king''))
       (okBody (JObj [(''message'', JStr ''rate limited'')])) (Inl NonError)
     = \<lparr>verified = False, confidence = High, matches = [], message = toolNotFoundMessage\<rparr>"
  by (simp add: tool_eval)

section \<open>The merge of the collect step\<close>

lemma pushNew_eq:
  "pushNew existingQuotes acc animeQuotes =
     acc @ filter (\<lambda>q. \<not> existing_has existingQuotes (quote q)) animeQuotes"
  by (induction animeQuotes arbitrary: acc) auto

lemma mergeQuotes_eq:
  "mergeQuotes charQuotes animeQuotes =
     charQuotes @ filter (\<lambda>q. \<not> existing_has (map quote charQuotes) (quote q)) animeQuotes"
  by (simp add: mergeQuotes_def pushNew_eq)

lemma existing_has_iff: "existing_has xs v \<longleftrightarrow> isPrimitive v \<and> v \<in> set xs"
  by (auto simp: existing_has_def sameValueZero_def list_ex_iff)

lemma isString_isPrimitive: "isString v \<Longrightarrow> isPrimitive v"
  by (cases v) auto

lemma mergeQuotes_Nil: "mergeQuotes [] quotes = quotes"
  by (simp add: mergeQuotes_eq existing_has_def)

text \<open>
  C3, as amended. The pool begins with the character-sourced list as it is; what follows
  are anime-sourced records, in their order, none of which has the text of a
  character-sourced record. When the texts of the character-sourced list are pairwise
  distinct and the texts of the anime-sourced list are strings and pairwise distinct, the
  texts of the pool are pairwise distinct.
\<close>

theorem merge_dedup:
  "take (length charQuotes) (mergeQuotes charQuotes animeQuotes) = charQuotes
   \<and> subseq (drop (length charQuotes) (mergeQuotes charQuotes animeQuotes)) animeQuotes
   \<and> list_all (\<lambda>q. \<not> existing_has (map quote charQuotes) (quote q))
        (drop (length charQuotes) (mergeQuotes charQuotes animeQuotes))
   \<and> (list_all (\<lambda>q. isString (quote q)) animeQuotes
        \<and> distinct (map quote charQuotes) \<and> distinct (map quote animeQuotes) \<longrightarrow>
      distinct (map quote (mergeQuotes charQuotes animeQuotes)))"
proof (intro conjI impI)
  show "take (length charQuotes) (mergeQuotes charQuotes animeQuotes) = charQuotes"
    by (simp add: mergeQuotes_eq)
  show "subseq (drop (length charQuotes) (mergeQuotes charQuotes animeQuotes)) animeQuotes"
    by (simp add: mergeQuotes_eq)
  show "list_all (\<lambda>q. \<not> existing_has (map quote charQuotes) (quote q))
        (drop (length charQuotes) (mergeQuotes charQuotes animeQuotes))"
    by (simp add: mergeQuotes_eq list_all_iff)
next
  assume a: "list_all (\<lambda>q. isString (quote q)) animeQuotes
        \<and> distinct (map quote charQuotes) \<and> distinct (map quote animeQuotes)"
  have "distinct (map quote (filter (\<lambda>q. \<not> existing_has (map quote charQuotes) (quote q))
                                animeQuotes))"
    using a by (simp add: distinct_map_filter)
  moreover have "quote ` set charQuotes
      \<inter> quote ` {q \<in> set animeQuotes. \<not> existing_has (map quote charQuotes) (quote q)} = {}"
  proof -
    have "False" if "x \<in> set charQuotes" "y \<in> set animeQuotes" "quote x = quote y"
      "\<not> existing_has (map quote charQuotes) (quote y)" for x y
    proof -
      from a that(2) have "isPrimitive (quote y)"
        by (simp add: list_all_iff isString_isPrimitive)
      moreover from that(1,3) have "quote y \<in> set (map quote charQuotes)"
        by (metis image_eqI set_map)
      ultimately show False using that(4) by (simp add: existing_has_iff)
    qed
    then show ?thesis by blast
  qed
  ultimately show "distinct (map quote (mergeQuotes charQuotes animeQuotes))"
    using a by (simp add: mergeQuotes_eq)
qed

theorem merge_dedup_witness:
  "mergeQuotes (map luffy [''a'', ''b'']) (map luffy [''b'', ''c'']) = map luffy [''a'', ''b'', ''c'']
   \<and> take (length (map luffy [''a'', ''b'']))
        (mergeQuotes (map luffy [''a'', ''b'']) (map luffy [''b'', ''c''])) = map luffy [''a'', ''b'']
   \<and> distinct (map quote (mergeQuotes (map luffy [''a'', ''b'']) (map luffy [''b'', ''c''])))"
proof -
  have h: "list_all (\<lambda>q. isString (quote q)) (map luffy [''b'', ''c''])
        \<and> distinct (map quote (map luffy [''a'', ''b'']))
        \<and> distinct (map quote (map luffy [''b'', ''c'']))"
    by (simp add: luffy_def)
  have e: "mergeQuotes (map luffy [''a'', ''b'']) (map luffy [''b'', ''c''])
      = map luffy [''a'', ''b'', ''c'']"
    by (simp add: luffy_def mergeQuotes_def existing_has_def sameValueZero_def)
  note m = merge_dedup [of "map luffy [''a'', ''b'']" "map luffy [''b'', ''c'']"]
  from m have 1: "take (length (map luffy [''a'', ''b'']))
        (mergeQuotes (map luffy [''a'', ''b'']) (map luffy [''b'', ''c''])) = map luffy [''a'', ''b'']"
    by (rule conjunct1)
  from m h have 2: "distinct (map quote (mergeQuotes (map luffy [''a'', ''b''])
                                           (map luffy [''b'', ''c''])))"
    by blast
  from e 1 2 show ?thesis by blast
qed

text \<open>The claim as stated fails: a text that the character lookup returns twice stands
  twice in the pool, since the character-sourced list is kept as it is.\<close>

theorem pool_duplicates_counterexample:
  "allQuotes (collectQuotes
       (searchQuotes workflowRequest (okBody (bareBody [''I will be king'', ''I will be king''])))
       (okBody (bareBody [''I will be king''])))
     = [luffy ''I will be king'', luffy ''I will be king'']
   \<and> \<not> distinct (map quote (allQuotes (collectQuotes
       (searchQuotes workflowRequest (okBody (bareBody [''I will be king'', ''I will be king''])))
       (okBody (bareBody [''I will be king''])))))"
  by (simp add: workflow_eval)

section \<open>Failed lookups of the workflow\<close>

lemma searchQuotes_failed: "lookupFailed f \<Longrightarrow> characterQuotes (searchQuotes d f) = []"
  by (cases f rule: lookupFailed.cases)
     (auto simp: searchQuotes_def searchQuotes_try_def bindE_def split: sum.splits)

lemma collectQuotes_failed: "lookupFailed f \<Longrightarrow> allQuotes (collectQuotes s f) = characterQuotes s"
  by (cases f rule: lookupFailed.cases)
     (auto simp: collectQuotes_def collectQuotes_try_def bindE_def split: sum.splits)

lemma searchQuotes_delivered:
  "given (q_character d) \<Longrightarrow> delivered f quotes \<Longrightarrow> characterQuotes (searchQuotes d f) = quotes"
  by (auto simp: delivered_def searchQuotes_def searchQuotes_try_def bindE_def)

lemma collectQuotes_delivered:
  "given (q_anime s) \<Longrightarrow> delivered f quotes \<Longrightarrow>
   allQuotes (collectQuotes s f) = mergeQuotes (characterQuotes s) quotes"
  by (auto simp: delivered_def collectQuotes_def collectQuotes_try_def bindE_def)

text \<open>
  C6. In the workflow, a lookup that failed (a rejected fetch, a response that is not ok,
  a body that is not JSON) does not end the step in an exception: the search step returns
  with no character quotes, the collect step returns with the character quotes it was
  given. The same holds for any exception inside the try block of either step. The quotes
  the other lookup delivered are the pool: the anime quotes when the character lookup
  failed, the character quotes when the anime lookup failed.
\<close>

theorem failed_lookup_swallowed:
  "(lookupFailed charFetch \<or> searchQuotes_try charFetch = Inl e \<longrightarrow>
      searchQuotes_execute (Some d) charFetch = Inr (searchQuotes d charFetch)
      \<and> characterQuotes (searchQuotes d charFetch) = [])
   \<and> (lookupFailed animeFetch \<or> collectQuotes_try (characterQuotes s) animeFetch = Inl e \<longrightarrow>
      collectQuotes_execute (Some s) animeFetch = Inr (collectQuotes s animeFetch)
      \<and> allQuotes (collectQuotes s animeFetch) = characterQuotes s)
   \<and> (lookupFailed charFetch \<and> given (q_anime d) \<and> delivered animeFetch quotes \<longrightarrow>
      allQuotes (collectQuotes (searchQuotes d charFetch) animeFetch) = quotes)
   \<and> (given (q_character d) \<and> delivered charFetch quotes \<and> lookupFailed animeFetch \<longrightarrow>
      allQuotes (collectQuotes (searchQuotes d charFetch) animeFetch) = quotes)"
proof (intro conjI impI)
  assume "lookupFailed charFetch \<or> searchQuotes_try charFetch = Inl e"
  then show "characterQuotes (searchQuotes d charFetch) = []"
    by (auto simp: searchQuotes_failed) (simp add: searchQuotes_def)
  show "searchQuotes_execute (Some d) charFetch = Inr (searchQuotes d charFetch)"
    by (simp add: searchQuotes_execute_def requireInput_def)
next
  assume "lookupFailed animeFetch \<or> collectQuotes_try (characterQuotes s) animeFetch = Inl e"
  then show "allQuotes (collectQuotes s animeFetch) = characterQuotes s"
    by (auto simp: collectQuotes_failed) (simp add: collectQuotes_def)
  show "collectQuotes_execute (Some s) animeFetch = Inr (collectQuotes s animeFetch)"
    by (simp add: collectQuotes_execute_def requireInput_def)
next
  assume a: "lookupFailed charFetch \<and> given (q_anime d) \<and> delivered animeFetch quotes"
  then have "characterQuotes (searchQuotes d charFetch) = []" by (simp add: searchQuotes_failed)
  moreover have "q_anime (searchQuotes d charFetch) = q_anime d" by (simp add: searchQuotes_def)
  ultimately show "allQuotes (collectQuotes (searchQuotes d charFetch) animeFetch) = quotes"
    using a collectQuotes_delivered [of "searchQuotes d charFetch" animeFetch quotes]
    by (simp add: mergeQuotes_Nil)
next
  assume "given (q_character d) \<and> delivered charFetch quotes \<and> lookupFailed animeFetch"
  then show "allQuotes (collectQuotes (searchQuotes d charFetch) animeFetch) = quotes"
    by (simp add: collectQuotes_failed searchQuotes_delivered)
qed

theorem failed_lookup_swallowed_witness:
  "searchQuotes_execute (Some workflowRequest) (Inl (TypeError ''fetch failed''))
     = Inr (searchQuotes workflowRequest (Inl (TypeError ''fetch failed'')))
   \<and> characterQuotes (searchQuotes workflowRequest (Inl (TypeError ''fetch failed''))) = []
   \<and> allQuotes (collectQuotes (searchQuotes workflowRequest (Inl (TypeError ''fetch failed'')))
                  (okBody (bareBody [''a'', ''b''])))
     = map luffy [''a'', ''b'']
   \<and> allQuotes (collectQuotes (searchQuotes workflowRequest (okBody (bareBody [''a'', ''b''])))
                  (Inr (Response False (Inr JNull))))
     = map luffy [''a'', ''b'']
   \<and> allQuotes (collectQuotes (searchQuotes workflowRequest (okBody (bareBody [''a'', ''b''])))
                  (Inr (Response True (Inl (SyntaxError ''Unexpected token'')))))
     = map luffy [''a'', ''b'']
   \<and> characterQuotes (searchQuotes workflowRequest
         (okBody (JObj [(''status'', JStr ''success''), (''data'', bareBody [''a''])]))) = []"
proof -
  have f1: "lookupFailed (Inl (TypeError ''fetch failed''))"
    and f2: "lookupFailed (Inr (Response False (Inr JNull)))"
    and f3: "lookupFailed (Inr (Response True (Inl (SyntaxError ''Unexpected token''))))"
    by simp_all
  have f4: "searchQuotes_try
      (okBody (JObj [(''status'', JStr ''success''), (''data'', bareBody [''a''])]))
      = Inl (TypeError ''data.map is not a function'')"
    by (simp add: searchQuotes_try_def okBody_def arrayMap_def bindE_def)
  have g: "given (q_anime workflowRequest)" "given (q_character workflowRequest)"
    by (simp_all add: workflowRequest_def)
  have dl: "delivered (okBody (bareBody [''a'', ''b''])) (map luffy [''a'', ''b''])"
    by (simp add: delivered_def okBody_def bareBody_def luffy_def arrayMap_def copyQuote_def
                  getProp_def bindE_def)
  from f1 failed_lookup_swallowed [of "Inl (TypeError ''fetch failed'')" _ workflowRequest]
  have 1: "searchQuotes_execute (Some workflowRequest) (Inl (TypeError ''fetch failed''))
             = Inr (searchQuotes workflowRequest (Inl (TypeError ''fetch failed'')))
           \<and> characterQuotes (searchQuotes workflowRequest (Inl (TypeError ''fetch failed''))) = []"
    by blast
  from f1 g dl failed_lookup_swallowed
    [of "Inl (TypeError ''fetch failed'')" _ workflowRequest "okBody (bareBody [''a'', ''b''])" _
        "map luffy [''a'', ''b'']"]
  have 2: "allQuotes (collectQuotes (searchQuotes workflowRequest (Inl (TypeError ''fetch failed'')))
                  (okBody (bareBody [''a'', ''b''])))
     = map luffy [''a'', ''b'']"
    by blast
  from f2 g dl failed_lookup_swallowed
    [of "okBody (bareBody [''a'', ''b''])" _ workflowRequest "Inr (Response False (Inr JNull))" _
        "map luffy [''a'', ''b'']"]
  have 3: "allQuotes (collectQuotes (searchQuotes workflowRequest (okBody (bareBody [''a'', ''b''])))
                  (Inr (Response False (Inr JNull))))
     = map luffy [''a'', ''b'']"
    by blast
  from f3 g dl failed_lookup_swallowed
    [of "okBody (bareBody [''a'', ''b''])" _ workflowRequest
        "Inr (Response True (Inl (SyntaxError ''Unexpected token'')))" _ "map luffy [''a'', ''b'']"]
  have 4: "allQuotes (collectQuotes (searchQuotes workflowRequest (okBody (bareBody [''a'', ''b''])))
                  (Inr (Response True (Inl (SyntaxError ''Unexpected token'')))))
     = map luffy [''a'', ''b'']"
    by blast
  from f4 failed_lookup_swallowed
    [of "okBody (JObj [(''status'', JStr ''success''), (''data'', bareBody [''a''])])"
        "TypeError ''data.map is not a function''" workflowRequest]
  have 5: "characterQuotes (searchQuotes workflowRequest
         (okBody (JObj [(''status'', JStr ''success''), (''data'', bareBody [''a''])]))) = []"
    by blast
  from 1 2 3 4 5 show ?thesis by blast
qed

end
